theory Spec2Isabelle
  imports Complex_Main "HOL-Library.Sublist"
begin

section \<open>Numbers, errors and containers\<close>

text \<open>
  The building's quantities are Python / numpy floats. A float is modelled as an exact
  real number or one of the three IEEE special values; rounding, overflow and the sign
  of zero are not modelled. The special values matter to the code: a demand sample may
  be NaN (\<^verbatim>\<open>math.isnan(space_demand)\<close>), and a numpy division by zero yields an
  infinity or NaN instead of raising.
\<close>

datatype pyfloat = Num real | PInf | NInf | NaN

text \<open>The exceptions that the modelled code can raise.\<close>

datatype error =
    IndexError
  | AttributeError string
  | KeyError string
  | ValueError
  | TypeError
  | ZeroDivisionError
  | AssertionError "string list"

type_synonym series = "pyfloat list"

text \<open>
  A data object (\<^verbatim>\<open>EnergySimulation\<close>, \<^verbatim>\<open>Weather\<close>, \<^verbatim>\<open>Pricing\<close>,
  \<^verbatim>\<open>CarbonIntensity\<close>) is what \<^verbatim>\<open>vars(obj)\<close> returns: its attribute names with
  their arrays, in declaration order.
\<close>

type_synonym pyobj = "(string \<times> series) list"

definition and_then :: "error + 'a \<Rightarrow> ('a \<Rightarrow> error + 'b) \<Rightarrow> error + 'b" where
  "and_then m f = (case m of Inl e \<Rightarrow> Inl e | Inr x \<Rightarrow> f x)"

definition getitem :: "'a list \<Rightarrow> nat \<Rightarrow> error + 'a" where
  "getitem xs i = (if i < length xs then Inr (xs ! i) else Inl IndexError)"

definition getattr :: "pyobj \<Rightarrow> string \<Rightarrow> error + series" where
  "getattr obj name = (case map_of obj name of None \<Rightarrow> Inl (AttributeError name) | Some v \<Rightarrow> Inr v)"

text \<open>\<^verbatim>\<open>obj.name[i]\<close>\<close>

definition attr_at :: "pyobj \<Rightarrow> string \<Rightarrow> nat \<Rightarrow> error + pyfloat" where
  "attr_at obj name i = and_then (getattr obj name) (\<lambda>a. getitem a i)"

subsection \<open>Float arithmetic\<close>

definition inf_times :: "real \<Rightarrow> pyfloat" where
  "inf_times r = (if 0 < r then PInf else if r < 0 then NInf else NaN)"

fun py_neg :: "pyfloat \<Rightarrow> pyfloat" where
  "py_neg (Num a) = Num (- a)"
| "py_neg PInf = NInf"
| "py_neg NInf = PInf"
| "py_neg NaN = NaN"

fun py_add :: "pyfloat \<Rightarrow> pyfloat \<Rightarrow> pyfloat" where
  "py_add (Num a) (Num b) = Num (a + b)"
| "py_add NaN y = NaN"
| "py_add x NaN = NaN"
| "py_add PInf NInf = NaN"
| "py_add NInf PInf = NaN"
| "py_add PInf y = PInf"
| "py_add x PInf = PInf"
| "py_add NInf y = NInf"
| "py_add x NInf = NInf"

definition py_sub :: "pyfloat \<Rightarrow> pyfloat \<Rightarrow> pyfloat" where
  "py_sub x y = py_add x (py_neg y)"

fun py_mul :: "pyfloat \<Rightarrow> pyfloat \<Rightarrow> pyfloat" where
  "py_mul (Num a) (Num b) = Num (a * b)"
| "py_mul NaN y = NaN"
| "py_mul x NaN = NaN"
| "py_mul PInf (Num b) = inf_times b"
| "py_mul NInf (Num b) = inf_times (- b)"
| "py_mul (Num a) PInf = inf_times a"
| "py_mul (Num a) NInf = inf_times (- a)"
| "py_mul PInf PInf = PInf"
| "py_mul NInf NInf = PInf"
| "py_mul PInf NInf = NInf"
| "py_mul NInf PInf = NInf"

fun py_abs :: "pyfloat \<Rightarrow> pyfloat" where
  "py_abs (Num a) = Num \<bar>a\<bar>"
| "py_abs PInf = PInf"
| "py_abs NInf = PInf"
| "py_abs NaN = NaN"

text \<open>
  Division of a numpy float64: a zero divisor gives an infinity of the dividend's sign,
  or NaN for \<open>0 / 0\<close>, with a warning and no exception.
\<close>

fun np_div :: "pyfloat \<Rightarrow> pyfloat \<Rightarrow> pyfloat" where
  "np_div (Num a) (Num b) = (if b = 0 then inf_times a else Num (a / b))"
| "np_div NaN y = NaN"
| "np_div x NaN = NaN"
| "np_div (Num a) y = Num 0"
| "np_div PInf (Num b) = (if b < 0 then NInf else PInf)"
| "np_div NInf (Num b) = (if b < 0 then PInf else NInf)"
| "np_div x y = NaN"

text \<open>Comparisons: every comparison with NaN is false.\<close>

fun py_lt :: "pyfloat \<Rightarrow> pyfloat \<Rightarrow> bool" where
  "py_lt (Num a) (Num b) = (a < b)"
| "py_lt NaN y = False"
| "py_lt x NaN = False"
| "py_lt x NInf = False"
| "py_lt PInf y = False"
| "py_lt x y = True"

definition py_gt :: "pyfloat \<Rightarrow> pyfloat \<Rightarrow> bool" where
  "py_gt x y = py_lt y x"

text \<open>
  The builtins \<^verbatim>\<open>max(a, b)\<close> and \<^verbatim>\<open>min(a, b)\<close> keep the first argument unless
  the second compares strictly greater (smaller), so a NaN in second place is dropped
  and a NaN in first place is kept.
\<close>

definition py_max :: "pyfloat \<Rightarrow> pyfloat \<Rightarrow> pyfloat" where
  "py_max a b = (if py_gt b a then b else a)"

definition py_min :: "pyfloat \<Rightarrow> pyfloat \<Rightarrow> pyfloat" where
  "py_min a b = (if py_lt b a then b else a)"

definition isnan :: "pyfloat \<Rightarrow> bool" where
  "isnan x = (x = NaN)"

text \<open>A float that is a number (or \<open>+inf\<close>) not below zero.\<close>

fun py_nonneg :: "pyfloat \<Rightarrow> bool" where
  "py_nonneg (Num a) = (0 \<le> a)"
| "py_nonneg PInf = True"
| "py_nonneg NInf = False"
| "py_nonneg NaN = False"

section \<open>The collaborators of a building\<close>

text \<open>
  The device, storage and PV classes live in \<^verbatim>\<open>citylearn.energy_model\<close>, outside the
  modelled sources. An object carries the attributes that \<^verbatim>\<open>building.py\<close> reads and
  its query methods as functions; nothing is assumed about what the methods compute.
\<close>

record storage_tank =
  capacity :: pyfloat
  soc :: series
  energy_balance :: series

record battery = storage_tank +
  electricity_consumption :: series
  capacity_history :: series

text \<open>
  \<^verbatim>\<open>HeatPump\<close>: \<^verbatim>\<open>get_cop(temperature, heating)\<close>,
  \<^verbatim>\<open>get_max_output_power(temperature, heating, max_electric_power=None)\<close> and
  \<^verbatim>\<open>get_input_power(output_power, temperature, heating)\<close>.
\<close>

record heat_pump =
  hp_nominal_power :: pyfloat
  hp_get_cop :: "pyfloat \<Rightarrow> bool \<Rightarrow> pyfloat"
  hp_get_max_output_power :: "pyfloat \<Rightarrow> bool \<Rightarrow> pyfloat option \<Rightarrow> pyfloat"
  hp_get_input_power :: "pyfloat \<Rightarrow> pyfloat \<Rightarrow> bool \<Rightarrow> pyfloat"

text \<open>
  \<^verbatim>\<open>ElectricHeater\<close>: \<^verbatim>\<open>efficiency\<close>, \<^verbatim>\<open>get_max_output_power()\<close> and
  \<^verbatim>\<open>get_input_power(output_power)\<close>.
\<close>

record electric_heater =
  eh_nominal_power :: pyfloat
  eh_efficiency :: pyfloat
  eh_get_max_output_power :: pyfloat
  eh_get_input_power :: "pyfloat \<Rightarrow> pyfloat"

datatype device = HeatPump heat_pump | ElectricHeater electric_heater

text \<open>
  \<^verbatim>\<open>PV.get_generation\<close> takes one sample (in \<^verbatim>\<open>observations\<close>) or a whole
  array (in \<^verbatim>\<open>reset\<close>); on an array it acts sample by sample.
\<close>

record pv_array =
  pv_nominal_power :: pyfloat
  get_generation :: "pyfloat \<Rightarrow> pyfloat"

text \<open>
  The state-changing methods of the collaborators, whose bodies are not part of the
  modelled sources, are parameters of the model. \<open>truediv\<close> is the \<^verbatim>\<open>/\<close> of the
  storage model's own numbers (\<^verbatim>\<open>soc[t] / capacity\<close>): plain Python floats raise
  \<^verbatim>\<open>ZeroDivisionError\<close> on a zero divisor, numpy floats do not.
\<close>

record energy_model =
  tank_charge :: "storage_tank \<Rightarrow> pyfloat \<Rightarrow> storage_tank"
  tank_next_time_step :: "storage_tank \<Rightarrow> storage_tank"
  tank_reset :: "storage_tank \<Rightarrow> storage_tank"
  battery_charge :: "battery \<Rightarrow> pyfloat \<Rightarrow> battery"
  battery_next_time_step :: "battery \<Rightarrow> battery"
  battery_reset :: "battery \<Rightarrow> battery"
  hp_update_electricity_consumption :: "heat_pump \<Rightarrow> pyfloat \<Rightarrow> heat_pump"
  hp_next_time_step :: "heat_pump \<Rightarrow> heat_pump"
  hp_reset :: "heat_pump \<Rightarrow> heat_pump"
  eh_update_electricity_consumption :: "electric_heater \<Rightarrow> pyfloat \<Rightarrow> electric_heater"
  eh_next_time_step :: "electric_heater \<Rightarrow> electric_heater"
  eh_reset :: "electric_heater \<Rightarrow> electric_heater"
  pv_next_time_step :: "pv_array \<Rightarrow> pv_array"
  pv_reset :: "pv_array \<Rightarrow> pv_array"
  truediv :: "pyfloat \<Rightarrow> pyfloat \<Rightarrow> error + pyfloat"

text \<open>
  \<^verbatim>\<open>dev.get_input_power(demand)\<close> with one argument, as the code calls it on a device
  that is not a heat pump. A heat pump's method needs the temperature and the mode
  as well (every call on a heat pump passes them), so the one-argument call on a heat
  pump is a \<^verbatim>\<open>TypeError\<close>.
\<close>

definition get_input_power1 :: "device \<Rightarrow> pyfloat \<Rightarrow> error + pyfloat" where
  "get_input_power1 d x =
     (case d of HeatPump hp \<Rightarrow> Inl TypeError | ElectricHeater eh \<Rightarrow> Inr (eh_get_input_power eh x))"

definition device_update_electricity_consumption :: "energy_model \<Rightarrow> device \<Rightarrow> pyfloat \<Rightarrow> device" where
  "device_update_electricity_consumption M d p =
     (case d of HeatPump hp \<Rightarrow> HeatPump (hp_update_electricity_consumption M hp p)
      | ElectricHeater eh \<Rightarrow> ElectricHeater (eh_update_electricity_consumption M eh p))"

definition device_next_time_step :: "energy_model \<Rightarrow> device \<Rightarrow> device" where
  "device_next_time_step M d =
     (case d of HeatPump hp \<Rightarrow> HeatPump (hp_next_time_step M hp)
      | ElectricHeater eh \<Rightarrow> ElectricHeater (eh_next_time_step M eh))"

definition device_reset :: "energy_model \<Rightarrow> device \<Rightarrow> device" where
  "device_reset M d =
     (case d of HeatPump hp \<Rightarrow> HeatPump (hp_reset M hp)
      | ElectricHeater eh \<Rightarrow> ElectricHeater (eh_reset M eh))"

section \<open>The building\<close>

text \<open>
  The fields of \<^verbatim>\<open>Building\<close> after construction. The last seven are the private
  ledgers; \<open>solar_generation_ledger\<close> is \<^verbatim>\<open>__solar_generation\<close>.
\<close>

record building =
  time_step :: nat
  energy_simulation :: pyobj
  weather :: pyobj
  pricing :: pyobj
  carbon_intensity :: pyobj
  dhw_storage :: storage_tank
  cooling_storage :: storage_tank
  heating_storage :: storage_tank
  electrical_storage :: battery
  dhw_device :: device
  cooling_device :: heat_pump
  heating_device :: device
  pv :: pv_array
  observation_metadata :: "(string \<times> bool) list"
  action_metadata :: "(string \<times> bool) list"
  cooling_electricity_consumption :: series
  heating_electricity_consumption :: series
  dhw_electricity_consumption :: series
  solar_generation_ledger :: series
  net_electricity_consumption :: series
  net_electricity_consumption_emission :: series
  net_electricity_consumption_price :: series

definition active_observations :: "'a building_scheme \<Rightarrow> string list" where
  "active_observations b = map fst (filter snd (observation_metadata b))"

definition active_actions :: "'a building_scheme \<Rightarrow> string list" where
  "active_actions b = map fst (filter snd (action_metadata b))"

text \<open>The properties \<^verbatim>\<open>heating_demand\<close> and \<^verbatim>\<open>dhw_demand\<close>: the series up to the current step.\<close>

definition heating_demand :: "'a building_scheme \<Rightarrow> error + series" where
  "heating_demand b =
     and_then (getattr (energy_simulation b) ''heating_demand'') (\<lambda>a. Inr (take (time_step b + 1) a))"

definition dhw_demand :: "'a building_scheme \<Rightarrow> error + series" where
  "dhw_demand b =
     and_then (getattr (energy_simulation b) ''dhw_demand'') (\<lambda>a. Inr (take (time_step b + 1) a))"

subsection \<open>\<^verbatim>\<open>update_variables\<close>: the ledger append\<close>

text \<open>Lines 949-950, 954-959 and 964-969: the three recomputed consumptions.\<close>

definition cooling_consumption_now :: "building \<Rightarrow> error + pyfloat" where
  "cooling_consumption_now b =
     (let t = time_step b in
      and_then (attr_at (energy_simulation b) ''cooling_demand'' t) (\<lambda>cd.
      and_then (getitem (energy_balance (cooling_storage b)) t) (\<lambda>cb.
      and_then (attr_at (weather b) ''outdoor_dry_bulb_temperature'' t) (\<lambda>temp.
      Inr (hp_get_input_power (cooling_device b) (py_add cd cb) temp False)))))"

definition heating_consumption_now :: "building \<Rightarrow> error + pyfloat" where
  "heating_consumption_now b =
     (let t = time_step b in
      and_then (and_then (heating_demand b) (\<lambda>a. getitem a t)) (\<lambda>hd.
      and_then (getitem (energy_balance (heating_storage b)) t) (\<lambda>hb.
      case heating_device b of
        HeatPump hp \<Rightarrow>
          and_then (attr_at (weather b) ''outdoor_dry_bulb_temperature'' t) (\<lambda>temp.
          Inr (hp_get_input_power hp (py_add hd hb) temp True))
      | ElectricHeater eh \<Rightarrow> get_input_power1 (dhw_device b) (py_add hd hb))))"

definition dhw_consumption_now :: "building \<Rightarrow> error + pyfloat" where
  "dhw_consumption_now b =
     (let t = time_step b in
      and_then (and_then (dhw_demand b) (\<lambda>a. getitem a t)) (\<lambda>dd.
      and_then (getitem (energy_balance (dhw_storage b)) t) (\<lambda>db.
      case dhw_device b of
        HeatPump hp \<Rightarrow>
          and_then (attr_at (weather b) ''outdoor_dry_bulb_temperature'' t) (\<lambda>temp.
          Inr (hp_get_input_power hp (py_add dd db) temp True))
      | ElectricHeater eh \<Rightarrow> get_input_power1 (dhw_device b) (py_add dd db))))"

text \<open>
  The sum of lines 974-979, in the order the code adds its six terms.
\<close>

definition net_sum :: "pyfloat \<Rightarrow> pyfloat \<Rightarrow> pyfloat \<Rightarrow> pyfloat \<Rightarrow> pyfloat \<Rightarrow> pyfloat \<Rightarrow> pyfloat" where
  "net_sum cooling heating dhw ec nsl sg =
     py_add (py_add (py_add (py_add (py_add cooling heating) dhw) ec) nsl) sg"

text \<open>
  An exception leaves the method before the later appends; the model returns the error
  and no state, so the reads keep the code's order and the appends are collected in the
  state that is returned.
\<close>

definition update_variables :: "building \<Rightarrow> error + building" where
  "update_variables b =
     (let t = time_step b in
      and_then (cooling_consumption_now b) (\<lambda>cooling_consumption.
      and_then (heating_consumption_now b) (\<lambda>heating_consumption.
      and_then (dhw_consumption_now b) (\<lambda>dhw_consumption.
      and_then (getitem (electricity_consumption (electrical_storage b)) t) (\<lambda>ec.
      and_then (attr_at (energy_simulation b) ''non_shiftable_load'' t) (\<lambda>nsl.
      and_then (getitem (solar_generation_ledger b) t) (\<lambda>sg.
      and_then (attr_at (pricing b) ''electricity_pricing'' t) (\<lambda>price.
      and_then (attr_at (carbon_intensity b) ''carbon_intensity'' t) (\<lambda>ci.
      let net = net_sum cooling_consumption heating_consumption dhw_consumption ec nsl sg in
      Inr (b\<lparr>cooling_electricity_consumption := cooling_electricity_consumption b @ [cooling_consumption],
             heating_electricity_consumption := heating_electricity_consumption b @ [heating_consumption],
             dhw_electricity_consumption := dhw_electricity_consumption b @ [dhw_consumption],
             net_electricity_consumption := net_electricity_consumption b @ [net],
             net_electricity_consumption_price := net_electricity_consumption_price b @ [py_mul net price],
             net_electricity_consumption_emission :=
               net_electricity_consumption_emission b @ [py_max (Num 0) (py_mul net ci)]\<rparr>))))))))))"

subsection \<open>Storage updates\<close>

text \<open>
  Line 633 (and 651, 672):
  \<^verbatim>\<open>0 if space_demand is None or math.isnan(space_demand) else space_demand\<close>.
  \<open>None\<close> stands for Python's \<^verbatim>\<open>None\<close>.
\<close>

definition known_or_zero :: "pyfloat option \<Rightarrow> pyfloat" where
  "known_or_zero v = (case v of None \<Rightarrow> Num 0 | Some x \<Rightarrow> if isnan x then Num 0 else x)"

text \<open>Line 635 (and 654, 675): \<^verbatim>\<open>max(-space_demand, min(max_output - space_demand, energy))\<close>.\<close>

definition clamp_energy :: "pyfloat \<Rightarrow> pyfloat \<Rightarrow> pyfloat \<Rightarrow> pyfloat" where
  "clamp_energy space_demand max_output energy =
     py_max (py_neg space_demand) (py_min (py_sub max_output space_demand) energy)"

definition update_cooling_storage :: "energy_model \<Rightarrow> building \<Rightarrow> pyfloat \<Rightarrow> error + building" where
  "update_cooling_storage M b action =
     (let t = time_step b;
          energy = py_mul action (capacity (cooling_storage b)) in
      and_then (attr_at (energy_simulation b) ''cooling_demand'' t) (\<lambda>sd.
      let space_demand = known_or_zero (Some sd) in
      and_then (attr_at (weather b) ''outdoor_dry_bulb_temperature'' t) (\<lambda>temp.
      let max_output = hp_get_max_output_power (cooling_device b) temp False None;
          energy = clamp_energy space_demand max_output energy;
          b1 = b\<lparr>cooling_storage := tank_charge M (cooling_storage b) energy\<rparr> in
      and_then (attr_at (weather b1) ''outdoor_dry_bulb_temperature'' t) (\<lambda>temp.
      let input_power = hp_get_input_power (cooling_device b1) (py_add space_demand energy) temp False in
      Inr (b1\<lparr>cooling_device := hp_update_electricity_consumption M (cooling_device b1) input_power\<rparr>)))))"

text \<open>
  Lines 652-653 and 673-674: the maximum output of a heating or DHW device; only a heat
  pump reads the outdoor temperature. Lines 657-658 and 678-679: its input power.
\<close>

definition device_max_output :: "building \<Rightarrow> device \<Rightarrow> error + pyfloat" where
  "device_max_output b d =
     (case d of
        HeatPump hp \<Rightarrow>
          and_then (attr_at (weather b) ''outdoor_dry_bulb_temperature'' (time_step b)) (\<lambda>temp.
          Inr (hp_get_max_output_power hp temp True None))
      | ElectricHeater eh \<Rightarrow> Inr (eh_get_max_output_power eh))"

definition device_input_power :: "building \<Rightarrow> device \<Rightarrow> pyfloat \<Rightarrow> error + pyfloat" where
  "device_input_power b d demand =
     (case d of
        HeatPump hp \<Rightarrow>
          and_then (attr_at (weather b) ''outdoor_dry_bulb_temperature'' (time_step b)) (\<lambda>temp.
          Inr (hp_get_input_power hp demand temp True))
      | ElectricHeater eh \<Rightarrow> Inr (eh_get_input_power eh demand))"

definition update_heating_storage :: "energy_model \<Rightarrow> building \<Rightarrow> pyfloat \<Rightarrow> error + building" where
  "update_heating_storage M b action =
     (let t = time_step b;
          energy = py_mul action (capacity (heating_storage b)) in
      and_then (attr_at (energy_simulation b) ''heating_demand'' t) (\<lambda>sd.
      let space_demand = known_or_zero (Some sd) in
      and_then (device_max_output b (heating_device b)) (\<lambda>max_output.
      let energy = clamp_energy space_demand max_output energy;
          b1 = b\<lparr>heating_storage := tank_charge M (heating_storage b) energy\<rparr>;
          demand = py_add space_demand energy in
      and_then (device_input_power b1 (heating_device b1) demand) (\<lambda>input_power.
      Inr (b1\<lparr>heating_device := device_update_electricity_consumption M (heating_device b1) input_power\<rparr>)))))"

definition update_dhw_storage :: "energy_model \<Rightarrow> building \<Rightarrow> pyfloat \<Rightarrow> error + building" where
  "update_dhw_storage M b action =
     (let t = time_step b;
          energy = py_mul action (capacity (dhw_storage b)) in
      and_then (attr_at (energy_simulation b) ''dhw_demand'' t) (\<lambda>sd.
      let space_demand = known_or_zero (Some sd) in
      and_then (device_max_output b (dhw_device b)) (\<lambda>max_output.
      let energy = clamp_energy space_demand max_output energy;
          b1 = b\<lparr>dhw_storage := tank_charge M (dhw_storage b) energy\<rparr>;
          demand = py_add space_demand energy in
      and_then (device_input_power b1 (dhw_device b1) demand) (\<lambda>input_power.
      Inr (b1\<lparr>dhw_device := device_update_electricity_consumption M (dhw_device b1) input_power\<rparr>)))))"

definition update_electrical_storage :: "energy_model \<Rightarrow> building \<Rightarrow> pyfloat \<Rightarrow> error + building" where
  "update_electrical_storage M b action =
     (let energy = py_mul action (capacity (electrical_storage b)) in
      Inr (b\<lparr>electrical_storage := battery_charge M (electrical_storage b) energy\<rparr>))"

text \<open>In \<^verbatim>\<open>Building\<close> the two device updates and the dynamics update do nothing.\<close>

definition update_cooling_device :: "building \<Rightarrow> pyfloat \<Rightarrow> error + building" where
  "update_cooling_device b action = Inr b"

definition update_heating_device :: "building \<Rightarrow> pyfloat \<Rightarrow> error + building" where
  "update_heating_device b action = Inr b"

definition update_dynamics :: "building \<Rightarrow> error + building" where
  "update_dynamics b = Inr b"

text \<open>The six actions of \<^verbatim>\<open>apply_actions\<close>; an action that is \<^verbatim>\<open>None\<close> counts as 0.0.\<close>

record actions =
  cooling_device_action :: "pyfloat option"
  heating_device_action :: "pyfloat option"
  cooling_storage_action :: "pyfloat option"
  heating_storage_action :: "pyfloat option"
  dhw_storage_action :: "pyfloat option"
  electrical_storage_action :: "pyfloat option"

definition action_or_zero :: "pyfloat option \<Rightarrow> pyfloat" where
  "action_or_zero a = (case a of None \<Rightarrow> Num 0 | Some x \<Rightarrow> x)"

definition apply_actions :: "energy_model \<Rightarrow> building \<Rightarrow> actions \<Rightarrow> error + building" where
  "apply_actions M b a =
     and_then (update_cooling_device b (action_or_zero (cooling_device_action a))) (\<lambda>b1.
     and_then (update_heating_device b1 (action_or_zero (heating_device_action a))) (\<lambda>b2.
     and_then (update_cooling_storage M b2 (action_or_zero (cooling_storage_action a))) (\<lambda>b3.
     and_then (update_heating_storage M b3 (action_or_zero (heating_storage_action a))) (\<lambda>b4.
     and_then (update_dhw_storage M b4 (action_or_zero (dhw_storage_action a))) (\<lambda>b5.
     and_then (update_electrical_storage M b5 (action_or_zero (electrical_storage_action a))) (\<lambda>b6.
     update_dynamics b6))))))"

subsection \<open>Stepping and resetting\<close>

text \<open>
  Modelled from the spec: the base class \<^verbatim>\<open>Environment\<close> (\<^verbatim>\<open>citylearn.base\<close>) is
  not among the sources. Its \<^verbatim>\<open>next_time_step\<close> advances the current time index by
  one and its \<^verbatim>\<open>reset\<close> puts it back to 0: the index is the "monotonically increasing
  integer shared with the external time-stepping object" and the ledgers are "indexed
  0..current_time_step".
\<close>

definition environment_next_time_step :: "building \<Rightarrow> building" where
  "environment_next_time_step b = b\<lparr>time_step := time_step b + 1\<rparr>"

definition environment_reset :: "building \<Rightarrow> building" where
  "environment_reset b = b\<lparr>time_step := 0\<rparr>"

text \<open>
  Each collaborator call changes its own object only, so the calls are written as one
  update of the fields, each computed from the object as it was.
\<close>

definition next_time_step :: "energy_model \<Rightarrow> building \<Rightarrow> error + building" where
  "next_time_step M b =
     update_variables
       (environment_next_time_step
          (b\<lparr>cooling_device := hp_next_time_step M (cooling_device b),
             heating_device := device_next_time_step M (heating_device b),
             dhw_device := device_next_time_step M (dhw_device b),
             cooling_storage := tank_next_time_step M (cooling_storage b),
             heating_storage := tank_next_time_step M (heating_storage b),
             dhw_storage := tank_next_time_step M (dhw_storage b),
             electrical_storage := battery_next_time_step M (electrical_storage b),
             pv := pv_next_time_step M (pv b)\<rparr>))"

definition reset :: "energy_model \<Rightarrow> building \<Rightarrow> error + building" where
  "reset M b =
     and_then (getattr (energy_simulation b) ''solar_generation'') (\<lambda>sg.
     update_variables
       ((environment_reset b)
          \<lparr>cooling_storage := tank_reset M (cooling_storage b),
           heating_storage := tank_reset M (heating_storage b),
           dhw_storage := tank_reset M (dhw_storage b),
           electrical_storage := battery_reset M (electrical_storage b),
           cooling_device := hp_reset M (cooling_device b),
           heating_device := device_reset M (heating_device b),
           dhw_device := device_reset M (dhw_device b),
           pv := pv_reset M (pv b),
           cooling_electricity_consumption := [],
           heating_electricity_consumption := [],
           dhw_electricity_consumption := [],
           solar_generation_ledger :=
             map (\<lambda>x. py_mul (get_generation (pv_reset M (pv b)) x) (Num (- 1))) sg,
           net_electricity_consumption := [],
           net_electricity_consumption_emission := [],
           net_electricity_consumption_price := []\<rparr>))"

subsection \<open>Runs of a building\<close>

text \<open>The six time-series ledgers that \<^verbatim>\<open>update_variables\<close> appends to.\<close>

definition ledgers :: "building \<Rightarrow> series list" where
  "ledgers b =
     [cooling_electricity_consumption b, heating_electricity_consumption b,
      dhw_electricity_consumption b, net_electricity_consumption b,
      net_electricity_consumption_price b, net_electricity_consumption_emission b]"

text \<open>
  \<open>later M b c\<close>: the building reaches state \<open>c\<close> from state \<open>b\<close> by applying actions
  and advancing time steps, any number of times in any order, without a reset.
\<close>

inductive later :: "energy_model \<Rightarrow> building \<Rightarrow> building \<Rightarrow> bool" for M :: energy_model and b :: building where
  later_now: "later M b b"
| later_actions: "later M b c \<Longrightarrow> apply_actions M c a = Inr c' \<Longrightarrow> later M b c'"
| later_step: "later M b c \<Longrightarrow> next_time_step M c = Inr c' \<Longrightarrow> later M b c'"

section \<open>Action space estimate\<close>

text \<open>
  \<^verbatim>\<open>array.max()\<close> of numpy: an empty array is a \<^verbatim>\<open>ValueError\<close>, and a NaN anywhere
  makes the maximum NaN.
\<close>

definition np_maximum :: "pyfloat \<Rightarrow> pyfloat \<Rightarrow> pyfloat" where
  "np_maximum a b = (if a = NaN \<or> b = NaN then NaN else if py_lt a b then b else a)"

definition np_max :: "series \<Rightarrow> error + pyfloat" where
  "np_max xs = (case xs of [] \<Rightarrow> Inl ValueError | x # rest \<Rightarrow> Inr (foldl np_maximum x rest))"

text \<open>\<^verbatim>\<open>vars(obj)[name]\<close>: a missing name is a \<^verbatim>\<open>KeyError\<close>.\<close>

definition vars_item :: "pyobj \<Rightarrow> string \<Rightarrow> error + series" where
  "vars_item obj name = (case map_of obj name of None \<Rightarrow> Inl (KeyError name) | Some v \<Rightarrow> Inr v)"

text \<open>
  \<^verbatim>\<open>vars(self)[f'_Building__{key}'].capacity\<close>. Of the private attributes that exist
  when the action space is estimated, only the four storages have a capacity.
\<close>

definition private_capacity :: "building \<Rightarrow> string \<Rightarrow> error + pyfloat" where
  "private_capacity b key =
     (if key = ''dhw_storage'' then Inr (capacity (dhw_storage b))
      else if key = ''cooling_storage'' then Inr (capacity (cooling_storage b))
      else if key = ''heating_storage'' then Inr (capacity (heating_storage b))
      else if key = ''electrical_storage'' then Inr (capacity (electrical_storage b))
      else if key \<in> set [''name'', ''energy_simulation'', ''weather'', ''carbon_intensity'', ''pricing'',
                          ''dhw_device'', ''cooling_device'', ''heating_device'', ''pv'',
                          ''observation_metadata'', ''action_metadata'', ''observation_epsilon'',
                          ''observation_space'']
      then Inl (AttributeError ''capacity'')
      else Inl (KeyError (''_Building__'' @ key)))"

text \<open>\<^verbatim>\<open>key.split("_")[0]\<close>\<close>

definition first_word :: "string \<Rightarrow> string" where
  "first_word key = takeWhile (\<lambda>c. c \<noteq> CHR ''_'') key"

text \<open>
  Lines 811-812, the body of the \<^verbatim>\<open>try\<close>: two comparisons of floats and two appends, none
  of which raises.
\<close>

definition ratio_bounds :: "pyfloat \<Rightarrow> error + pyfloat \<times> pyfloat" where
  "ratio_bounds maximum_demand_ratio =
     Inr (py_max (py_neg maximum_demand_ratio) (Num (- 1)), py_min maximum_demand_ratio (Num 1))"

text \<open>
  One round of the loop of \<^verbatim>\<open>estimate_action_space\<close>: the low and the high limit of
  one active action. The demand maximum is a numpy float64 (the demand series are numpy
  arrays of floats), so line 808 divides as numpy does; it stands before the
  \<^verbatim>\<open>try\<close>.
\<close>

definition action_limits :: "building \<Rightarrow> string \<Rightarrow> error + pyfloat \<times> pyfloat" where
  "action_limits b key =
     (if key = ''electrical_storage'' then Inr (Num (- 1), Num 1)
      else if key \<in> set [''cooling_device'', ''heating_device''] then Inr (Num 0, Num 1)
      else
        and_then (private_capacity b key) (\<lambda>capacity.
        and_then (vars_item (energy_simulation b) (first_word key @ ''_demand'')) (\<lambda>demand.
        and_then (np_max demand) (\<lambda>maximum_demand.
        let maximum_demand_ratio = np_div maximum_demand capacity in
        case ratio_bounds maximum_demand_ratio of
          Inl ZeroDivisionError \<Rightarrow> Inr (Num (- 1), Num 1)
        | Inl e \<Rightarrow> Inl e
        | Inr limits \<Rightarrow> Inr limits))))"

fun action_limits_loop :: "building \<Rightarrow> string list \<Rightarrow> error + (pyfloat \<times> pyfloat) list" where
  "action_limits_loop b [] = Inr []"
| "action_limits_loop b (key # keys) =
     and_then (action_limits b key) (\<lambda>l.
     and_then (action_limits_loop b keys) (\<lambda>ls. Inr (l # ls)))"

text \<open>The returned box as its two arrays; the cast to float32 is not modelled.\<close>

definition estimate_action_space :: "building \<Rightarrow> error + series \<times> series" where
  "estimate_action_space b =
     and_then (action_limits_loop b (active_actions b)) (\<lambda>ls. Inr (map fst ls, map snd ls))"

section \<open>Observations\<close>

text \<open>\<^verbatim>\<open>{k: v[t] for k, v in vars(obj).items()}\<close>\<close>

fun vars_at :: "pyobj \<Rightarrow> nat \<Rightarrow> error + (string \<times> pyfloat) list" where
  "vars_at [] t = Inr []"
| "vars_at ((k, v) # rest) t =
     and_then (getitem v t) (\<lambda>x.
     and_then (vars_at rest t) (\<lambda>r. Inr ((k, x) # r)))"

text \<open>
  A dictionary display lists its entries in order and a later entry replaces an earlier
  one of the same key.
\<close>

definition dict_get :: "(string \<times> 'a) list \<Rightarrow> string \<Rightarrow> 'a option" where
  "dict_get entries k = map_of (rev entries) k"

definition soc_fraction :: "energy_model \<Rightarrow> building \<Rightarrow> storage_tank \<Rightarrow> error + pyfloat" where
  "soc_fraction M b s =
     and_then (getitem (soc s) (time_step b)) (\<lambda>x. truediv M x (capacity s))"

text \<open>Line 202-204: the value of \<^verbatim>\<open>'heating_device_cop'\<close>.\<close>

definition heating_device_cop :: "building \<Rightarrow> error + pyfloat" where
  "heating_device_cop b =
     (case heating_device b of
        HeatPump hp \<Rightarrow>
          and_then (attr_at (weather b) ''outdoor_dry_bulb_temperature'' (time_step b)) (\<lambda>temp.
          Inr (hp_get_cop (cooling_device b) temp True))
      | ElectricHeater eh \<Rightarrow> Inr (eh_efficiency eh))"

text \<open>The entries of the dictionary \<^verbatim>\<open>data\<close> (lines 188-212), in the order of the display.\<close>

definition observations_data :: "energy_model \<Rightarrow> building \<Rightarrow> error + (string \<times> pyfloat) list" where
  "observations_data M b =
     (let t = time_step b in
      and_then (vars_at (energy_simulation b) t) (\<lambda>es.
      and_then (vars_at (weather b) t) (\<lambda>w.
      and_then (vars_at (pricing b) t) (\<lambda>p.
      and_then (attr_at (energy_simulation b) ''solar_generation'' t) (\<lambda>sg.
      and_then (soc_fraction M b (cooling_storage b)) (\<lambda>cooling_soc.
      and_then (soc_fraction M b (heating_storage b)) (\<lambda>heating_soc.
      and_then (soc_fraction M b (dhw_storage b)) (\<lambda>dhw_soc.
      and_then (getitem (soc (electrical_storage b)) t) (\<lambda>es_soc.
      and_then (getitem (capacity_history (electrical_storage b)) 0) (\<lambda>es_capacity.
      and_then (truediv M es_soc es_capacity) (\<lambda>electrical_soc.
      and_then (getitem (net_electricity_consumption b) t) (\<lambda>net.
      and_then (vars_at (carbon_intensity b) t) (\<lambda>ci.
      and_then (attr_at (weather b) ''outdoor_dry_bulb_temperature'' t) (\<lambda>temp.
      and_then (heating_device_cop b) (\<lambda>heating_cop.
      and_then (attr_at (energy_simulation b) ''cooling_demand'' t) (\<lambda>cd.
      and_then (attr_at (energy_simulation b) ''heating_demand'' t) (\<lambda>hd.
      and_then (attr_at (energy_simulation b) ''cooling_dry_bulb_temperature_set_point'' t) (\<lambda>csp.
      and_then (attr_at (energy_simulation b) ''heating_dry_bulb_temperature_set_point'' t) (\<lambda>hsp.
      and_then (attr_at (energy_simulation b) ''indoor_dry_bulb_temperature'' t) (\<lambda>indoor.
      and_then (attr_at (energy_simulation b) ''occupant_count'' t) (\<lambda>occupants.
      Inr ((es @ w @ p @
            [(''solar_generation'', get_generation (pv b) sg),
             (''cooling_storage_soc'', cooling_soc),
             (''heating_storage_soc'', heating_soc),
             (''dhw_storage_soc'', dhw_soc),
             (''electrical_storage_soc'', electrical_soc),
             (''net_electricity_consumption'', net)] @ ci) @
           [(''cooling_device_cop'', hp_get_cop (cooling_device b) temp False),
            (''heating_device_cop'', heating_cop),
            (''cooling_demand'', cd),
            (''heating_demand'', hd),
            (''cooling_dry_bulb_temperature_set_point'', csp),
            (''heating_dry_bulb_temperature_set_point'', hsp),
            (''cooling_dry_bulb_temperature_delta'', py_abs (py_sub csp indoor)),
            (''heating_dry_bulb_temperature_delta'', py_abs (py_sub hsp indoor)),
            (''occupant_count'', occupants)])
      )))))))))))))))))))))"

text \<open>
  Lines 213-216. The active names come from the keys of a dictionary, which are distinct.
  The failed assertion carries the unknown names; their order in the message is that of a
  Python set and is not modelled.
\<close>

definition select_observations ::
  "(string \<times> pyfloat) list \<Rightarrow> string list \<Rightarrow> error + (string \<times> pyfloat) list" where
  "select_observations entries active =
     (let observations = concat (map (\<lambda>k. case dict_get entries k of None \<Rightarrow> [] | Some v \<Rightarrow> [(k, v)]) active);
          unknown_observations = filter (\<lambda>k. k \<notin> set (map fst observations)) (remdups active)
      in if length unknown_observations = 0 then Inr observations
         else Inl (AssertionError unknown_observations))"

definition observations :: "energy_model \<Rightarrow> building \<Rightarrow> error + (string \<times> pyfloat) list" where
  "observations M b =
     and_then (observations_data M b) (\<lambda>entries. select_observations entries (active_observations b))"

section \<open>The temperature-driven building\<close>

text \<open>
  Modelled from the spec: the attribute \<^verbatim>\<open>cooling_device_demand_schedule\<close> of the
  energy simulation is not declared in \<^verbatim>\<open>data.py\<close>. The code compares it with 0 as
  one value; it is "the device's demand-enabling schedule flag", an integer like the
  other status series of \<^verbatim>\<open>EnergySimulation\<close>. The other two fields are what
  \<^verbatim>\<open>LSTMDynamicsBuilding\<close> reads of its sequence model: \<^verbatim>\<open>dynamics.lookback\<close> and
  \<^verbatim>\<open>dynamics.input_size\<close>.
\<close>

record lstm_dynamics_building = building +
  cooling_device_demand_schedule :: int
  dynamics_lookback :: nat
  dynamics_input_size :: nat

text \<open>\<^verbatim>\<open>array[i] = v\<close> and the write through the attribute that holds the array.\<close>

definition setitem :: "'a list \<Rightarrow> nat \<Rightarrow> 'a \<Rightarrow> error + 'a list" where
  "setitem xs i v = (if i < length xs then Inr (xs[i := v]) else Inl IndexError)"

definition set_entry :: "(string \<times> 'a) list \<Rightarrow> string \<Rightarrow> 'a \<Rightarrow> (string \<times> 'a) list" where
  "set_entry entries name v = map (\<lambda>(k, x). if k = name then (k, v) else (k, x)) entries"

definition lstm_update_cooling_device ::
  "lstm_dynamics_building \<Rightarrow> pyfloat \<Rightarrow> error + lstm_dynamics_building" where
  "lstm_update_cooling_device b action =
     and_then
       (if 0 < cooling_device_demand_schedule b then
          let electric_power = py_min (py_mul action (hp_nominal_power (cooling_device b)))
                                 (hp_nominal_power (cooling_device b)) in
          and_then (attr_at (weather b) ''outdoor_dry_bulb_temperature'' (time_step b)) (\<lambda>temp.
          Inr (hp_get_max_output_power (cooling_device b) temp False (Some electric_power)))
        else Inr (Num 0)) (\<lambda>demand.
     and_then (getattr (energy_simulation b) ''cooling_demand'') (\<lambda>cd.
     and_then (setitem cd (time_step b) demand) (\<lambda>cd'.
     Inr (b\<lparr>energy_simulation := set_entry (energy_simulation b) ''cooling_demand'' cd'\<rparr>))))"

subsection \<open>The look-back window of \<^verbatim>\<open>update_dynamics\<close>\<close>

text \<open>\<^verbatim>\<open>xs[-n:]\<close>; with \<open>n = 0\<close> this is \<^verbatim>\<open>xs[0:]\<close>, the whole array.\<close>

definition tail_slice :: "'a list \<Rightarrow> nat \<Rightarrow> 'a list" where
  "tail_slice xs n = (if n = 0 then xs else drop (length xs - n) xs)"

text \<open>\<^verbatim>\<open>np.roll(xs, shift)\<close>: the element at index \<open>i\<close> moves to index \<open>(i + shift) mod len\<close>.\<close>

definition np_roll :: "'a list \<Rightarrow> int \<Rightarrow> 'a list" where
  "np_roll xs shift =
     (if xs = [] then []
      else let k = nat (shift mod int (length xs))
           in drop (length xs - k) xs @ take (length xs - k) xs)"

text \<open>
  \<^verbatim>\<open>np.roll(np.concatenate([xs, xs[-lookback:]]), shift)[t:t + lookback]\<close>, the
  expression that fills every column of the window.
\<close>

definition lookback_window :: "'a list \<Rightarrow> nat \<Rightarrow> int \<Rightarrow> nat \<Rightarrow> 'a list" where
  "lookback_window xs lookback shift t =
     take lookback (drop t (np_roll (xs @ tail_slice xs lookback) shift))"

text \<open>
  The frame \<^verbatim>\<open>model_input\<close> is its columns in order. Assigning to a column replaces
  it; an array of another length than the frame's is a \<^verbatim>\<open>ValueError\<close>.
\<close>

type_synonym frame = "(string \<times> series) list"

definition set_column :: "nat \<Rightarrow> frame \<Rightarrow> string \<Rightarrow> series \<Rightarrow> error + frame" where
  "set_column rows f name vs =
     (if length vs = rows then Inr (set_entry f name vs) else Inl ValueError)"

definition model_input_columns :: "string list" where
  "model_input_columns =
     [''direct_solar_irradiance'', ''outdoor_dry_bulb_temperature'', ''occupant_count'', ''q_hvac'',
      ''hour_sin'', ''hour_cos'', ''day_type_sin'', ''day_type_cos'', ''month_sin'', ''month_cos'',
      ''indoor_dry_bulb_temperature'']"

text \<open>
  Lines 1045-1054. \<^verbatim>\<open>PeriodicNormalization\<close> is not part of the modelled sources:
  \<open>pn x_max values\<close> stands for \<^verbatim>\<open>pn * values\<close> after \<^verbatim>\<open>pn.x_max = x_max\<close> and
  returns the sine and the cosine array.
\<close>

fun periodic_columns ::
  "(pyfloat \<Rightarrow> series \<Rightarrow> series \<times> series) \<Rightarrow> (string \<times> series) list \<Rightarrow> nat \<Rightarrow> nat \<Rightarrow>
     frame \<Rightarrow> string list \<Rightarrow> error + frame" where
  "periodic_columns pn data lookback t f [] = Inr f"
| "periodic_columns pn data lookback t f (c # cs) =
     (case dict_get data c of
        None \<Rightarrow> Inl (KeyError c)
      | Some xs \<Rightarrow>
          let values = lookback_window xs lookback (int lookback) t in
          and_then (np_max values) (\<lambda>x_max.
          and_then (set_column lookback f (c @ ''_sin'') (fst (pn x_max values))) (\<lambda>f1.
          and_then (set_column lookback f1 (c @ ''_cos'') (snd (pn x_max values))) (\<lambda>f2.
          periodic_columns pn data lookback t f2 cs))))"

text \<open>Lines 1056-1059, the columns that are left.\<close>

fun plain_columns ::
  "(string \<times> series) list \<Rightarrow> nat \<Rightarrow> nat \<Rightarrow> frame \<Rightarrow> string list \<Rightarrow> error + frame" where
  "plain_columns data lookback t f [] = Inr f"
| "plain_columns data lookback t f (c # cs) =
     (case dict_get data c of
        None \<Rightarrow> Inl (KeyError c)
      | Some xs \<Rightarrow>
          and_then (set_column lookback f c (lookback_window xs lookback (int lookback) t)) (\<lambda>f1.
          plain_columns data lookback t f1 cs))"

text \<open>
  Lines 1021-1059 of \<^verbatim>\<open>update_dynamics\<close>: the frame \<^verbatim>\<open>model_input\<close> before it is
  scaled. The scaling that follows works on each column by itself and moves no row.
\<close>

definition lstm_model_input ::
  "(pyfloat \<Rightarrow> series \<Rightarrow> series \<times> series) \<Rightarrow> lstm_dynamics_building \<Rightarrow> error + frame" where
  "lstm_model_input pn b =
     (let lookback = dynamics_lookback b; t = time_step b in
      if dynamics_input_size b \<noteq> length model_input_columns then Inl ValueError
      else
        let f0 = map (\<lambda>c. (c, replicate lookback (Num 0))) model_input_columns in
        and_then (getattr (energy_simulation b) ''cooling_demand'') (\<lambda>cd.
        and_then (set_column lookback f0 ''q_hvac'' (lookback_window cd lookback (int lookback - 1) t)) (\<lambda>f1.
        and_then (getattr (energy_simulation b) ''indoor_dry_bulb_temperature'') (\<lambda>it.
        and_then (set_column lookback f1 ''indoor_dry_bulb_temperature''
                    (lookback_window it lookback (int lookback) t)) (\<lambda>f2.
        let data = energy_simulation b @ weather b in
        and_then (periodic_columns pn data lookback t f2 [''hour'', ''day_type'', ''month'']) (\<lambda>f3.
        plain_columns data lookback t f3
          [''direct_solar_irradiance'', ''outdoor_dry_bulb_temperature'', ''occupant_count'']))))))"

section \<open>Example buildings\<close>

text \<open>
  A small concrete installation, used to run the model: a collaborator model whose
  storages log every charge request, a heat pump with a coefficient of performance of
  4 (cooling) and 2 (heating) that delivers at most 5 kWh, and two resistive heaters.
\<close>

definition example_model :: energy_model where
  "example_model =
     \<lparr>tank_charge = (\<lambda>s e. s\<lparr>soc := soc s @ [e], energy_balance := energy_balance s @ [e]\<rparr>),
      tank_next_time_step = (\<lambda>s. s),
      tank_reset = (\<lambda>s. s\<lparr>soc := [Num 0], energy_balance := [Num 0]\<rparr>),
      battery_charge = (\<lambda>s e. s\<lparr>soc := soc s @ [e], energy_balance := energy_balance s @ [e],
                                 electricity_consumption := electricity_consumption s @ [e]\<rparr>),
      battery_next_time_step = (\<lambda>s. s),
      battery_reset = (\<lambda>s. s\<lparr>soc := [Num 0], energy_balance := [Num 0],
                               electricity_consumption := [Num 0]\<rparr>),
      hp_update_electricity_consumption = (\<lambda>d p. d),
      hp_next_time_step = (\<lambda>d. d),
      hp_reset = (\<lambda>d. d),
      eh_update_electricity_consumption = (\<lambda>d p. d),
      eh_next_time_step = (\<lambda>d. d),
      eh_reset = (\<lambda>d. d),
      pv_next_time_step = (\<lambda>p. p),
      pv_reset = (\<lambda>p. p),
      truediv = (\<lambda>x y. if y = Num 0 then Inl ZeroDivisionError else Inr (np_div x y))\<rparr>"

definition example_heat_pump :: heat_pump where
  "example_heat_pump =
     \<lparr>hp_nominal_power = Num 2,
      hp_get_cop = (\<lambda>temp heating. if heating then Num 2 else Num 4),
      hp_get_max_output_power =
        (\<lambda>temp heating max_electric_power.
           case max_electric_power of None \<Rightarrow> Num 5 | Some p \<Rightarrow> py_mul p (Num 4)),
      hp_get_input_power = (\<lambda>x temp heating. np_div x (if heating then Num 2 else Num 4))\<rparr>"

definition example_heater :: "real \<Rightarrow> electric_heater" where
  "example_heater e =
     \<lparr>eh_nominal_power = Num 6,
      eh_efficiency = Num e,
      eh_get_max_output_power = Num (6 * e),
      eh_get_input_power = (\<lambda>x. np_div x (Num e))\<rparr>"

definition example_tank :: "real \<Rightarrow> storage_tank" where
  "example_tank c = \<lparr>capacity = Num c, soc = [Num 0], energy_balance = [Num 0]\<rparr>"

definition example_battery :: battery where
  "example_battery =
     \<lparr>capacity = Num 8, soc = [Num 0], energy_balance = [Num 0],
      electricity_consumption = [Num 0], capacity_history = [Num 8]\<rparr>"

definition example_energy_simulation :: pyobj where
  "example_energy_simulation =
     [(''indoor_dry_bulb_temperature'', [Num 21, Num 23]),
      (''non_shiftable_load'', [Num 1, Num 2]),
      (''dhw_demand'', [Num 2, Num 1]),
      (''cooling_demand'', [Num 0, Num 4]),
      (''heating_demand'', [Num 9, Num 3]),
      (''solar_generation'', [Num 3, Num 0]),
      (''cooling_dry_bulb_temperature_set_point'', [Num 24, Num 24]),
      (''heating_dry_bulb_temperature_set_point'', [Num 20, Num 20]),
      (''occupant_count'', [Num 2, Num 0])]"

text \<open>
  The heating device is a resistive heater of efficiency 9/10, the DHW device one of
  efficiency 1/2; the solar ledger holds the negated generation.
\<close>

definition example_building :: building where
  "example_building =
     \<lparr>time_step = 0,
      energy_simulation = example_energy_simulation,
      weather = [(''outdoor_dry_bulb_temperature'', [Num 30, Num 10])],
      pricing = [(''electricity_pricing'', [Num (1 / 2), Num (1 / 4)])],
      carbon_intensity = [(''carbon_intensity'', [Num (1 / 5), Num (1 / 5)])],
      dhw_storage = example_tank 3,
      cooling_storage = example_tank 10,
      heating_storage = example_tank 4,
      electrical_storage = example_battery,
      dhw_device = ElectricHeater (example_heater (1 / 2)),
      cooling_device = example_heat_pump,
      heating_device = ElectricHeater (example_heater (9 / 10)),
      pv = \<lparr>pv_nominal_power = Num 1, get_generation = (\<lambda>x. x)\<rparr>,
      observation_metadata = [(''cooling_demand'', True), (''month'', False), (''heating_device_cop'', True)],
      action_metadata = [(''cooling_storage'', True), (''electrical_storage'', True)],
      cooling_electricity_consumption = [],
      heating_electricity_consumption = [],
      dhw_electricity_consumption = [],
      solar_generation_ledger = [Num (- 3), Num 0],
      net_electricity_consumption = [],
      net_electricity_consumption_emission = [],
      net_electricity_consumption_price = []\<rparr>"

text \<open>
  One step of a run: charge the cooling storage fully, discharge the DHW storage fully,
  charge the battery by a quarter, leave the rest to their defaults.
\<close>

definition example_actions :: actions where
  "example_actions =
     \<lparr>cooling_device_action = None, heating_device_action = None,
      cooling_storage_action = Some (Num 1), heating_storage_action = None,
      dhw_storage_action = Some (Num (- 1)), electrical_storage_action = Some (Num (1 / 4))\<rparr>"

definition example_after_reset :: building where
  "example_after_reset =
     example_building\<lparr>cooling_electricity_consumption := [Num 0],
       heating_electricity_consumption := [Num 18],
       dhw_electricity_consumption := [Num 4],
       net_electricity_consumption := [Num 20],
       net_electricity_consumption_price := [Num 10],
       net_electricity_consumption_emission := [Num 4]\<rparr>"

definition example_after_actions :: building where
  "example_after_actions =
     example_after_reset\<lparr>
       cooling_storage := \<lparr>capacity = Num 10, soc = [Num 0, Num 5], energy_balance = [Num 0, Num 5]\<rparr>,
       heating_storage := \<lparr>capacity = Num 4, soc = [Num 0, Num (- (18 / 5))],
                            energy_balance = [Num 0, Num (- (18 / 5))]\<rparr>,
       dhw_storage := \<lparr>capacity = Num 3, soc = [Num 0, Num (- 2)], energy_balance = [Num 0, Num (- 2)]\<rparr>,
       electrical_storage := \<lparr>capacity = Num 8, soc = [Num 0, Num 2], energy_balance = [Num 0, Num 2],
                               electricity_consumption = [Num 0, Num 2], capacity_history = [Num 8]\<rparr>\<rparr>"

definition example_after_step :: building where
  "example_after_step =
     example_after_actions\<lparr>time_step := 1,
       cooling_electricity_consumption := [Num 0, Num (9 / 4)],
       heating_electricity_consumption := [Num 18, Num (- (6 / 5))],
       dhw_electricity_consumption := [Num 4, Num (- 2)],
       net_electricity_consumption := [Num 20, Num (61 / 20)],
       net_electricity_consumption_price := [Num 10, Num (61 / 80)],
       net_electricity_consumption_emission := [Num 4, Num (61 / 100)]\<rparr>"

text \<open>
  The example building without a cooling storage (capacity 0) and without cooling
  demand, with the cooling storage as its only active action.
\<close>

definition example_bare_building :: building where
  "example_bare_building =
     example_building\<lparr>cooling_storage := example_tank 0,
       energy_simulation := [(''cooling_demand'', [Num 0, Num 0])],
       action_metadata := [(''cooling_storage'', True)]\<rparr>"

text \<open>
  The example building after its reset, with a heat pump for heating whose own
  coefficient of performance (7 in heating mode) differs from the cooling device's (2).
\<close>

definition example_heating_heat_pump :: heat_pump where
  "example_heating_heat_pump =
     example_heat_pump\<lparr>hp_get_cop := (\<lambda>temp heating. if heating then Num 7 else Num 8)\<rparr>"

definition example_heat_pump_building :: building where
  "example_heat_pump_building =
     example_after_reset\<lparr>heating_device := HeatPump example_heating_heat_pump\<rparr>"

text \<open>The entries of \<^verbatim>\<open>data\<close> that the example building assembles after its reset.\<close>

definition example_entries :: "real \<Rightarrow> (string \<times> pyfloat) list" where
  "example_entries heating_cop =
     [(''indoor_dry_bulb_temperature'', Num 21),
      (''non_shiftable_load'', Num 1), (''dhw_demand'', Num 2),
      (''cooling_demand'', Num 0), (''heating_demand'', Num 9),
      (''solar_generation'', Num 3),
      (''cooling_dry_bulb_temperature_set_point'', Num 24),
      (''heating_dry_bulb_temperature_set_point'', Num 20),
      (''occupant_count'', Num 2),
      (''outdoor_dry_bulb_temperature'', Num 30),
      (''electricity_pricing'', Num (1 / 2)), (''solar_generation'', Num 3),
      (''cooling_storage_soc'', Num 0), (''heating_storage_soc'', Num 0),
      (''dhw_storage_soc'', Num 0), (''electrical_storage_soc'', Num 0),
      (''net_electricity_consumption'', Num 20),
      (''carbon_intensity'', Num (1 / 5)), (''cooling_device_cop'', Num 4),
      (''heating_device_cop'', Num heating_cop), (''cooling_demand'', Num 0),
      (''heating_demand'', Num 9),
      (''cooling_dry_bulb_temperature_set_point'', Num 24),
      (''heating_dry_bulb_temperature_set_point'', Num 20),
      (''cooling_dry_bulb_temperature_delta'', Num 3),
      (''heating_dry_bulb_temperature_delta'', Num 1),
      (''occupant_count'', Num 2)]"

text \<open>
  A configuration that activates two names without a data source: \<open>month\<close> (the example's
  energy simulation has no such series) and \<open>foo\<close>.
\<close>

definition example_misconfigured_building :: building where
  "example_misconfigured_building =
     example_after_reset\<lparr>observation_metadata :=
       [(''month'', True), (''cooling_demand'', True), (''foo'', True)]\<rparr>"

text \<open>
  A temperature-driven building over four steps in which every series is the step index
  0, 1, 2, 3, so that a window shows which steps it samples; the look-back is 2 and the
  current step is 3. The stand-in for the periodic normalization returns the values and
  their distance to the maximum.
\<close>

definition example_steps :: series where
  "example_steps = [Num 0, Num 1, Num 2, Num 3]"

definition example_pn :: "pyfloat \<Rightarrow> series \<Rightarrow> series \<times> series" where
  "example_pn x_max values = (values, map (\<lambda>x. py_sub x_max x) values)"

definition example_lstm_building :: lstm_dynamics_building where
  "example_lstm_building =
     building.extend
       (example_building\<lparr>time_step := 3,
          energy_simulation :=
            [(''month'', example_steps), (''hour'', example_steps), (''day_type'', example_steps),
             (''indoor_dry_bulb_temperature'', example_steps), (''cooling_demand'', example_steps),
             (''occupant_count'', example_steps)],
          weather :=
            [(''outdoor_dry_bulb_temperature'', example_steps),
             (''direct_solar_irradiance'', example_steps)]\<rparr>)
       (lstm_dynamics_building.fields 1 2 11)"

section \<open>Properties of the ledger append\<close>

lemma and_then_Inr: "and_then m f = Inr y \<longleftrightarrow> (\<exists>x. m = Inr x \<and> f x = Inr y)"
  by (cases m) (simp_all add: and_then_def)

lemmas example_defs = example_building_def example_energy_simulation_def example_battery_def
  example_tank_def example_heater_def example_heat_pump_def example_model_def example_actions_def
  example_after_reset_def example_after_actions_def example_after_step_def
  example_bare_building_def example_heating_heat_pump_def example_heat_pump_building_def
  example_misconfigured_building_def

lemmas eval_defs = attr_at_def getattr_def getitem_def and_then_def Let_def
  py_max_def py_min_def py_gt_def py_sub_def inf_times_def
  device_reset_def device_next_time_step_def device_update_electricity_consumption_def

lemmas update_variables_defs = update_variables_def cooling_consumption_now_def
  heating_consumption_now_def heating_demand_def dhw_consumption_now_def dhw_demand_def
  net_sum_def get_input_power1_def

lemma py_max_zero_nonneg: "py_nonneg (py_max (Num 0) x)"
  by (cases x) (simp_all add: py_max_def py_gt_def)

lemma update_variables_Inr:
  assumes "update_variables b = Inr b'"
  obtains cooling heating dhw ec nsl sg price ci where
    "cooling_consumption_now b = Inr cooling"
    "heating_consumption_now b = Inr heating"
    "dhw_consumption_now b = Inr dhw"
    "getitem (electricity_consumption (electrical_storage b)) (time_step b) = Inr ec"
    "attr_at (energy_simulation b) ''non_shiftable_load'' (time_step b) = Inr nsl"
    "getitem (solar_generation_ledger b) (time_step b) = Inr sg"
    "attr_at (pricing b) ''electricity_pricing'' (time_step b) = Inr price"
    "attr_at (carbon_intensity b) ''carbon_intensity'' (time_step b) = Inr ci"
    "b' = b\<lparr>cooling_electricity_consumption := cooling_electricity_consumption b @ [cooling],
             heating_electricity_consumption := heating_electricity_consumption b @ [heating],
             dhw_electricity_consumption := dhw_electricity_consumption b @ [dhw],
             net_electricity_consumption := net_electricity_consumption b @ [net_sum cooling heating dhw ec nsl sg],
             net_electricity_consumption_price := net_electricity_consumption_price b @ [py_mul (net_sum cooling heating dhw ec nsl sg) price],
             net_electricity_consumption_emission :=
               net_electricity_consumption_emission b @ [py_max (Num 0) (py_mul (net_sum cooling heating dhw ec nsl sg) ci)]\<rparr>"
  using assms unfolding update_variables_def Let_def and_then_Inr by blast

lemma update_variables_solar: "update_variables b = Inr b' \<Longrightarrow> solar_generation_ledger b' = solar_generation_ledger b"
  by (erule update_variables_Inr) simp

lemma reset_solar:
  assumes "reset M b = Inr b'"
  shows "\<exists>sg. getattr (energy_simulation b) ''solar_generation'' = Inr sg \<and>
           solar_generation_ledger b' = map (\<lambda>x. py_mul (get_generation (pv_reset M (pv b)) x) (Num (- 1))) sg"
  using assms unfolding reset_def Let_def and_then_Inr environment_reset_def
  by (auto dest!: update_variables_solar)

text \<open>
  Claim C1. Whenever \<^verbatim>\<open>update_variables\<close> completes, the entry it appends to the net
  electricity consumption ledger is the sum, in the code's order, of the cooling, heating
  and DHW consumptions appended in the same call, the electrical storage's electricity
  consumption at the current step, the non-shiftable load at the current step and the
  solar ledger's value at the current step. The solar ledger is filled by \<^verbatim>\<open>reset\<close>
  with the PV generation times \<open>-1\<close>, so the solar term is the negated generation.
\<close>

theorem net_entry:
  "(update_variables b = Inr b' \<longrightarrow>
      (\<exists>cooling heating dhw ec nsl sg.
           cooling_electricity_consumption b' = cooling_electricity_consumption b @ [cooling] \<and>
           heating_electricity_consumption b' = heating_electricity_consumption b @ [heating] \<and>
           dhw_electricity_consumption b' = dhw_electricity_consumption b @ [dhw] \<and>
           getitem (electricity_consumption (electrical_storage b)) (time_step b) = Inr ec \<and>
           attr_at (energy_simulation b) ''non_shiftable_load'' (time_step b) = Inr nsl \<and>
           getitem (solar_generation_ledger b) (time_step b) = Inr sg \<and>
           net_electricity_consumption b' =
             net_electricity_consumption b @
               [py_add (py_add (py_add (py_add (py_add cooling heating) dhw) ec) nsl) sg])) \<and>
   (reset M c = Inr c' \<longrightarrow>
      (\<exists>sg. getattr (energy_simulation c) ''solar_generation'' = Inr sg \<and>
           solar_generation_ledger c' =
             map (\<lambda>x. py_mul (get_generation (pv_reset M (pv c)) x) (Num (- 1))) sg))"
proof (intro conjI impI)
  assume "update_variables b = Inr b'"
  then obtain cooling heating dhw ec nsl sg price ci where
    h: "getitem (electricity_consumption (electrical_storage b)) (time_step b) = Inr ec"
    "attr_at (energy_simulation b) ''non_shiftable_load'' (time_step b) = Inr nsl"
    "getitem (solar_generation_ledger b) (time_step b) = Inr sg"
    and b': "b' = b\<lparr>cooling_electricity_consumption := cooling_electricity_consumption b @ [cooling],
             heating_electricity_consumption := heating_electricity_consumption b @ [heating],
             dhw_electricity_consumption := dhw_electricity_consumption b @ [dhw],
             net_electricity_consumption := net_electricity_consumption b @ [net_sum cooling heating dhw ec nsl sg],
             net_electricity_consumption_price := net_electricity_consumption_price b @ [py_mul (net_sum cooling heating dhw ec nsl sg) price],
             net_electricity_consumption_emission :=
               net_electricity_consumption_emission b @ [py_max (Num 0) (py_mul (net_sum cooling heating dhw ec nsl sg) ci)]\<rparr>"
    by (rule update_variables_Inr)
  show "\<exists>cooling heating dhw ec nsl sg.
           cooling_electricity_consumption b' = cooling_electricity_consumption b @ [cooling] \<and>
           heating_electricity_consumption b' = heating_electricity_consumption b @ [heating] \<and>
           dhw_electricity_consumption b' = dhw_electricity_consumption b @ [dhw] \<and>
           getitem (electricity_consumption (electrical_storage b)) (time_step b) = Inr ec \<and>
           attr_at (energy_simulation b) ''non_shiftable_load'' (time_step b) = Inr nsl \<and>
           getitem (solar_generation_ledger b) (time_step b) = Inr sg \<and>
           net_electricity_consumption b' =
             net_electricity_consumption b @
               [py_add (py_add (py_add (py_add (py_add cooling heating) dhw) ec) nsl) sg]"
    using h by (simp add: b' net_sum_def)
next
  assume "reset M c = Inr c'"
  then show "\<exists>sg. getattr (energy_simulation c) ''solar_generation'' = Inr sg \<and>
           solar_generation_ledger c' =
             map (\<lambda>x. py_mul (get_generation (pv_reset M (pv c)) x) (Num (- 1))) sg"
    by (rule reset_solar)
qed

lemma example_update_variables:
  "update_variables example_building =
     Inr (example_building\<lparr>cooling_electricity_consumption := [Num 0],
            heating_electricity_consumption := [Num 18],
            dhw_electricity_consumption := [Num 4],
            net_electricity_consumption := [Num 20],
            net_electricity_consumption_price := [Num 10],
            net_electricity_consumption_emission := [Num 4]\<rparr>)"
  by (simp add: update_variables_defs example_defs eval_defs)

lemma example_reset:
  "reset example_model (example_building\<lparr>time_step := 1, solar_generation_ledger := []\<rparr>) =
     Inr (example_building\<lparr>cooling_electricity_consumption := [Num 0],
            heating_electricity_consumption := [Num 18],
            dhw_electricity_consumption := [Num 4],
            net_electricity_consumption := [Num 20],
            net_electricity_consumption_price := [Num 10],
            net_electricity_consumption_emission := [Num 4]\<rparr>)"
  by (simp add: reset_def environment_reset_def update_variables_defs example_defs eval_defs)

text \<open>
  On the example building the call appends 0 + 18 + 4 + 0 + 1 - 3 = 20, and a reset
  stores the generation series 3, 0 as -3, 0.
\<close>

theorem net_entry_witness:
  "\<exists>b' b''. update_variables example_building = Inr b' \<and>
     reset example_model (example_building\<lparr>time_step := 1, solar_generation_ledger := []\<rparr>) = Inr b'' \<and>
     net_electricity_consumption b' = [Num 20] \<and>
     solar_generation_ledger b'' = [Num (- 3), Num 0]"
proof -
  obtain b' where u: "update_variables example_building = Inr b'"
    using example_update_variables by blast
  obtain b'' where r: "reset example_model (example_building\<lparr>time_step := 1, solar_generation_ledger := []\<rparr>) = Inr b''"
    using example_reset by blast
  have n: "net_electricity_consumption b' = [Num 20]"
    using u unfolding example_update_variables by auto
  note net_entry [of example_building b' example_model "example_building\<lparr>time_step := 1, solar_generation_ledger := []\<rparr>" b'']
  with u r obtain sg where "getattr (energy_simulation example_building) ''solar_generation'' = Inr sg"
     "solar_generation_ledger b'' = map (\<lambda>x. py_mul (get_generation (pv_reset example_model (pv example_building)) x) (Num (- 1))) sg"
    by auto
  then have "solar_generation_ledger b'' = [Num (- 3), Num 0]"
    by (auto simp add: example_defs eval_defs)
  with u r n show ?thesis by blast
qed

text \<open>
  Claim C4. Whenever \<^verbatim>\<open>update_variables\<close> completes, the entry it appends to the
  emission ledger is \<^verbatim>\<open>max(0, net * carbon_intensity[t])\<close> for the net consumption
  appended in the same call; the entry is a number not below zero whatever the net
  consumption is (also when it is negative, infinite or NaN), so a ledger without
  negative entries stays so.
\<close>

theorem emission_entry:
  assumes "update_variables b = Inr b'"
  shows "\<exists>net ci.
           net_electricity_consumption b' = net_electricity_consumption b @ [net] \<and>
           attr_at (carbon_intensity b) ''carbon_intensity'' (time_step b) = Inr ci \<and>
           net_electricity_consumption_emission b' =
             net_electricity_consumption_emission b @ [py_max (Num 0) (py_mul net ci)] \<and>
           py_nonneg (py_max (Num 0) (py_mul net ci)) \<and>
           (list_all py_nonneg (net_electricity_consumption_emission b) \<longrightarrow>
              list_all py_nonneg (net_electricity_consumption_emission b'))"
proof -
  from assms obtain cooling heating dhw ec nsl sg price ci where
    ci: "attr_at (carbon_intensity b) ''carbon_intensity'' (time_step b) = Inr ci"
    and b': "b' = b\<lparr>cooling_electricity_consumption := cooling_electricity_consumption b @ [cooling],
             heating_electricity_consumption := heating_electricity_consumption b @ [heating],
             dhw_electricity_consumption := dhw_electricity_consumption b @ [dhw],
             net_electricity_consumption := net_electricity_consumption b @ [net_sum cooling heating dhw ec nsl sg],
             net_electricity_consumption_price := net_electricity_consumption_price b @ [py_mul (net_sum cooling heating dhw ec nsl sg) price],
             net_electricity_consumption_emission :=
               net_electricity_consumption_emission b @ [py_max (Num 0) (py_mul (net_sum cooling heating dhw ec nsl sg) ci)]\<rparr>"
    by (rule update_variables_Inr)
  let ?net = "net_sum cooling heating dhw ec nsl sg"
  have "net_electricity_consumption b' = net_electricity_consumption b @ [?net]"
    by (simp add: b')
  moreover have "net_electricity_consumption_emission b' =
      net_electricity_consumption_emission b @ [py_max (Num 0) (py_mul ?net ci)]"
    by (simp add: b')
  moreover have "py_nonneg (py_max (Num 0) (py_mul ?net ci))"
    by (rule py_max_zero_nonneg)
  ultimately show ?thesis
    using ci by (intro exI [of _ ?net] exI [of _ ci]) simp
qed

text \<open>
  With a solar ledger entry of -30 the net consumption of the example is -7 and the
  product with the carbon intensity 1/5 is negative; the appended emission is 0.
\<close>

lemma example_export_update_variables:
  "update_variables (example_building\<lparr>solar_generation_ledger := [Num (- 30)]\<rparr>) =
     Inr (example_building\<lparr>cooling_electricity_consumption := [Num 0],
            heating_electricity_consumption := [Num 18],
            dhw_electricity_consumption := [Num 4],
            solar_generation_ledger := [Num (- 30)],
            net_electricity_consumption := [Num (- 7)],
            net_electricity_consumption_price := [Num (- 7 / 2)],
            net_electricity_consumption_emission := [Num 0]\<rparr>)"
  by (simp add: update_variables_defs example_defs eval_defs)

theorem emission_entry_witness:
  "\<exists>b'. update_variables (example_building\<lparr>solar_generation_ledger := [Num (- 30)]\<rparr>) = Inr b' \<and>
     net_electricity_consumption b' = [Num (- 7)] \<and>
     net_electricity_consumption_emission b' = [Num 0] \<and>
     list_all py_nonneg (net_electricity_consumption_emission b')"
proof -
  let ?b = "example_building\<lparr>solar_generation_ledger := [Num (- 30)]\<rparr>"
  obtain b' where u: "update_variables ?b = Inr b'"
    using example_export_update_variables by blast
  have e: "net_electricity_consumption_emission ?b = []"
    by (simp add: example_building_def)
  have "net_electricity_consumption b' = [Num (- 7)]"
    and "net_electricity_consumption_emission b' = [Num 0]"
    using u unfolding example_export_update_variables by auto
  moreover have "list_all py_nonneg (net_electricity_consumption_emission b')"
    using emission_entry [OF u] e by auto
  ultimately show ?thesis using u by blast
qed

text \<open>
  Claim C3. The recorded heating consumption is not always computed by the heating
  device: when the heating device is a resistive heater, \<^verbatim>\<open>update_variables\<close> calls
  the DHW device's \<^verbatim>\<open>get_input_power\<close>. In the example the heating device has
  efficiency 9/10 and the DHW device 1/2; the heating demand 9 needs 10 from the heating
  device, and the ledger gets 18.
\<close>

theorem heating_entry_by_dhw_device:
  "heating_device example_building = ElectricHeater (example_heater (9 / 10)) \<and>
   dhw_device example_building = ElectricHeater (example_heater (1 / 2)) \<and>
   attr_at (energy_simulation example_building) ''heating_demand'' 0 = Inr (Num 9) \<and>
   getitem (energy_balance (heating_storage example_building)) 0 = Inr (Num 0) \<and>
   eh_get_input_power (example_heater (9 / 10)) (py_add (Num 9) (Num 0)) = Num 10 \<and>
   eh_get_input_power (example_heater (1 / 2)) (py_add (Num 9) (Num 0)) = Num 18 \<and>
   map_sum id heating_electricity_consumption (update_variables example_building) = Inr [Num 18]"
  by (simp add: example_update_variables) (simp add: example_defs eval_defs)

section \<open>Properties of runs and of the storage updates\<close>

lemmas storage_defs = update_cooling_storage_def update_heating_storage_def update_dhw_storage_def
  update_electrical_storage_def clamp_energy_def known_or_zero_def isnan_def
  device_max_output_def device_input_power_def

lemma update_variables_ledgers:
  assumes "update_variables b = Inr b'"
  shows "time_step b' = time_step b \<and> (\<exists>x1 x2 x3 x4 x5 x6. ledgers b' = map2 (\<lambda>l x. l @ [x]) (ledgers b) [x1, x2, x3, x4, x5, x6])"
  using assms by (elim update_variables_Inr) (simp add: ledgers_def)

lemma update_cooling_storage_ledgers:
  "update_cooling_storage M b a = Inr b' \<Longrightarrow> ledgers b' = ledgers b \<and> time_step b' = time_step b"
  unfolding update_cooling_storage_def Let_def and_then_Inr by (auto simp: ledgers_def)

lemma update_heating_storage_ledgers:
  "update_heating_storage M b a = Inr b' \<Longrightarrow> ledgers b' = ledgers b \<and> time_step b' = time_step b"
  unfolding update_heating_storage_def Let_def and_then_Inr by (auto simp: ledgers_def)

lemma update_dhw_storage_ledgers:
  "update_dhw_storage M b a = Inr b' \<Longrightarrow> ledgers b' = ledgers b \<and> time_step b' = time_step b"
  unfolding update_dhw_storage_def Let_def and_then_Inr by (auto simp: ledgers_def)

lemma update_electrical_storage_ledgers:
  "update_electrical_storage M b a = Inr b' \<Longrightarrow> ledgers b' = ledgers b \<and> time_step b' = time_step b"
  unfolding update_electrical_storage_def Let_def by (auto simp: ledgers_def)

lemma apply_actions_ledgers:
  assumes "apply_actions M b a = Inr b'"
  shows "ledgers b' = ledgers b \<and> time_step b' = time_step b"
proof -
  from assms obtain b3 b4 b5 b6 where
    "update_cooling_storage M b (action_or_zero (cooling_storage_action a)) = Inr b3"
    "update_heating_storage M b3 (action_or_zero (heating_storage_action a)) = Inr b4"
    "update_dhw_storage M b4 (action_or_zero (dhw_storage_action a)) = Inr b5"
    "update_electrical_storage M b5 (action_or_zero (electrical_storage_action a)) = Inr b6"
    "b' = b6"
    unfolding apply_actions_def and_then_Inr update_cooling_device_def update_heating_device_def
      update_dynamics_def by auto
  then show ?thesis
    using update_cooling_storage_ledgers update_heating_storage_ledgers
      update_dhw_storage_ledgers update_electrical_storage_ledgers by metis
qed

lemma next_time_step_ledgers:
  assumes "next_time_step M b = Inr b'"
  shows "time_step b' = time_step b + 1 \<and>
    (\<exists>x1 x2 x3 x4 x5 x6. ledgers b' = map2 (\<lambda>l x. l @ [x]) (ledgers b) [x1, x2, x3, x4, x5, x6])"
  using update_variables_ledgers [OF assms [unfolded next_time_step_def]]
  by (simp add: environment_next_time_step_def ledgers_def)

lemma reset_ledgers:
  assumes "reset M b = Inr b'"
  shows "time_step b' = 0 \<and> (\<forall>l \<in> set (ledgers b'). length l = 1)"
proof -
  from assms obtain c where u: "update_variables c = Inr b'" and c: "time_step c = 0" "\<forall>l \<in> set (ledgers c). l = []"
    unfolding reset_def and_then_Inr by (auto simp: environment_reset_def ledgers_def)
  from update_variables_ledgers [OF u] c show ?thesis
    by (auto simp: ledgers_def)
qed

lemma later_lengths:
  assumes "later M b c" and "\<forall>l \<in> set (ledgers b). length l = time_step b + 1"
  shows "\<forall>l \<in> set (ledgers c). length l = time_step c + 1"
  using assms
proof (induction rule: later.induct)
  case later_now
  then show ?case by simp
next
  case (later_actions c a c')
  then show ?case using apply_actions_ledgers by metis
next
  case (later_step c c')
  from next_time_step_ledgers [OF later_step.hyps(2)] later_step.IH later_step.prems
  show ?case by (auto simp: ledgers_def)
qed

lemma later_prefix:
  assumes "later M b c"
  shows "list_all2 prefix (ledgers b) (ledgers c)"
  using assms
proof (induction rule: later.induct)
  case later_now
  then show ?case by (simp add: list_all2_same)
next
  case (later_actions c a c')
  then show ?case using apply_actions_ledgers by metis
next
  case (later_step c c')
  from next_time_step_ledgers [OF later_step.hyps(2)] later_step.IH
  show ?case by (auto simp: ledgers_def intro: prefix_order.trans)
qed


lemma example_run_reset: "reset example_model example_building = Inr example_after_reset"
  by (simp add: reset_def environment_reset_def update_variables_defs example_defs eval_defs)

lemma example_run_actions:
  "apply_actions example_model example_after_reset example_actions = Inr example_after_actions"
  by (simp add: apply_actions_def update_cooling_device_def update_heating_device_def
      update_dynamics_def action_or_zero_def storage_defs example_defs eval_defs)

lemma example_run_step: "next_time_step example_model example_after_actions = Inr example_after_step"
  by (simp add: next_time_step_def environment_next_time_step_def update_variables_defs
      example_defs eval_defs)

text \<open>
  Claim C5. In every state that a building reaches after a reset by applying actions
  and advancing time steps, each of the six ledgers has length \<open>time_step + 1\<close>; and
  whatever happens later (without a reset), each ledger of the earlier state is a prefix
  of the same ledger in the later state, so no entry is rewritten.
\<close>

theorem ledger_lengths_and_prefixes:
  "(reset M b0 = Inr b \<and> later M b c \<longrightarrow> (\<forall>l \<in> set (ledgers c). length l = time_step c + 1)) \<and>
   (later M d d' \<longrightarrow> list_all2 prefix (ledgers d) (ledgers d'))"
proof (intro conjI impI)
  assume "reset M b0 = Inr b \<and> later M b c"
  then have r: "reset M b0 = Inr b" and l: "later M b c" by simp_all
  from reset_ledgers [OF r] have "\<forall>l \<in> set (ledgers b). length l = time_step b + 1"
    by simp
  with l show "\<forall>l \<in> set (ledgers c). length l = time_step c + 1"
    by (rule later_lengths)
next
  assume "later M d d'"
  then show "list_all2 prefix (ledgers d) (ledgers d')"
    by (rule later_prefix)
qed

theorem ledger_lengths_and_prefixes_witness:
  "reset example_model example_building = Inr example_after_reset \<and>
   later example_model example_after_reset example_after_step \<and>
   time_step example_after_step = 1 \<and>
   map length (ledgers example_after_step) = [2, 2, 2, 2, 2, 2] \<and>
   list_all2 prefix (ledgers example_after_reset) (ledgers example_after_step)"
proof -
  have l: "later example_model example_after_reset example_after_step"
    by (rule later_step [OF later_actions [OF later_now example_run_actions] example_run_step])
  have "time_step example_after_step = 1"
    by (simp add: example_defs)
  moreover have "map length (ledgers example_after_step) = [2, 2, 2, 2, 2, 2]"
    by (simp add: ledgers_def example_defs)
  ultimately show ?thesis
    using ledger_lengths_and_prefixes [of example_model example_building example_after_reset
        example_after_step example_after_reset example_after_step] example_run_reset l
    by simp
qed

lemma known_or_zero_Some: "known_or_zero (Some x) = (if x = NaN then Num 0 else x)"
  by (simp add: known_or_zero_def isnan_def)

lemma update_cooling_storage_charge:
  assumes "update_cooling_storage M b a = Inr b'"
  shows "\<exists>sd temp.
      attr_at (energy_simulation b) ''cooling_demand'' (time_step b) = Inr sd \<and>
      attr_at (weather b) ''outdoor_dry_bulb_temperature'' (time_step b) = Inr temp \<and>
      cooling_storage b' = tank_charge M (cooling_storage b)
        (clamp_energy (known_or_zero (Some sd)) (hp_get_max_output_power (cooling_device b) temp False None)
           (py_mul a (capacity (cooling_storage b))))"
  using assms unfolding update_cooling_storage_def Let_def and_then_Inr by auto

lemma update_heating_storage_charge:
  assumes "update_heating_storage M b a = Inr b'"
  shows "\<exists>sd m.
      attr_at (energy_simulation b) ''heating_demand'' (time_step b) = Inr sd \<and>
      device_max_output b (heating_device b) = Inr m \<and>
      heating_storage b' = tank_charge M (heating_storage b)
        (clamp_energy (known_or_zero (Some sd)) m (py_mul a (capacity (heating_storage b))))"
  using assms unfolding update_heating_storage_def Let_def and_then_Inr by auto

lemma update_dhw_storage_charge:
  assumes "update_dhw_storage M b a = Inr b'"
  shows "\<exists>sd m.
      attr_at (energy_simulation b) ''dhw_demand'' (time_step b) = Inr sd \<and>
      device_max_output b (dhw_device b) = Inr m \<and>
      dhw_storage b' = tank_charge M (dhw_storage b)
        (clamp_energy (known_or_zero (Some sd)) m (py_mul a (capacity (dhw_storage b))))"
  using assms unfolding update_dhw_storage_def Let_def and_then_Inr by auto

lemma device_max_output_cases:
  "device_max_output b d = Inr m \<Longrightarrow>
     (case d of
        HeatPump hp \<Rightarrow> \<exists>temp. attr_at (weather b) ''outdoor_dry_bulb_temperature'' (time_step b) = Inr temp \<and>
                         m = hp_get_max_output_power hp temp True None
      | ElectricHeater eh \<Rightarrow> m = eh_get_max_output_power eh)"
  by (cases d) (auto simp: device_max_output_def and_then_Inr)

text \<open>
  Claim C2. Whenever a cooling, heating or DHW storage update with action \<open>a\<close>
  completes, the storage has been charged with \<open>max(-d, min(m - d, raw))\<close>, where
  \<open>raw\<close> is \<open>a\<close> times the storage's capacity, \<open>d\<close> is the end use's demand at the
  current step with NaN replaced by 0 (a demand of \<^verbatim>\<open>None\<close> also counts as 0), and
  \<open>m\<close> is the device's maximum output: a heat pump's at the current outdoor
  temperature, in cooling mode for the cooling device and in heating mode for the other
  two, or a resistive heater's.
\<close>

theorem storage_charge_request:
  "(update_cooling_storage M b a = Inr b' \<longrightarrow>
      (\<exists>sd temp d m.
         attr_at (energy_simulation b) ''cooling_demand'' (time_step b) = Inr sd \<and>
         attr_at (weather b) ''outdoor_dry_bulb_temperature'' (time_step b) = Inr temp \<and>
         d = (if sd = NaN then Num 0 else sd) \<and>
         m = hp_get_max_output_power (cooling_device b) temp False None \<and>
         cooling_storage b' = tank_charge M (cooling_storage b)
           (py_max (py_neg d) (py_min (py_sub m d) (py_mul a (capacity (cooling_storage b))))))) \<and>
   (update_heating_storage M b a = Inr b' \<longrightarrow>
      (\<exists>sd d m.
         attr_at (energy_simulation b) ''heating_demand'' (time_step b) = Inr sd \<and>
         d = (if sd = NaN then Num 0 else sd) \<and>
         (case heating_device b of
            HeatPump hp \<Rightarrow>
              \<exists>temp. attr_at (weather b) ''outdoor_dry_bulb_temperature'' (time_step b) = Inr temp \<and>
                m = hp_get_max_output_power hp temp True None
          | ElectricHeater eh \<Rightarrow> m = eh_get_max_output_power eh) \<and>
         heating_storage b' = tank_charge M (heating_storage b)
           (py_max (py_neg d) (py_min (py_sub m d) (py_mul a (capacity (heating_storage b))))))) \<and>
   (update_dhw_storage M b a = Inr b' \<longrightarrow>
      (\<exists>sd d m.
         attr_at (energy_simulation b) ''dhw_demand'' (time_step b) = Inr sd \<and>
         d = (if sd = NaN then Num 0 else sd) \<and>
         (case dhw_device b of
            HeatPump hp \<Rightarrow>
              \<exists>temp. attr_at (weather b) ''outdoor_dry_bulb_temperature'' (time_step b) = Inr temp \<and>
                m = hp_get_max_output_power hp temp True None
          | ElectricHeater eh \<Rightarrow> m = eh_get_max_output_power eh) \<and>
         dhw_storage b' = tank_charge M (dhw_storage b)
           (py_max (py_neg d) (py_min (py_sub m d) (py_mul a (capacity (dhw_storage b))))))) \<and>
   known_or_zero None = Num 0"
proof (intro conjI impI)
  assume "update_cooling_storage M b a = Inr b'"
  from update_cooling_storage_charge [OF this]
  show "\<exists>sd temp d m.
         attr_at (energy_simulation b) ''cooling_demand'' (time_step b) = Inr sd \<and>
         attr_at (weather b) ''outdoor_dry_bulb_temperature'' (time_step b) = Inr temp \<and>
         d = (if sd = NaN then Num 0 else sd) \<and>
         m = hp_get_max_output_power (cooling_device b) temp False None \<and>
         cooling_storage b' = tank_charge M (cooling_storage b)
           (py_max (py_neg d) (py_min (py_sub m d) (py_mul a (capacity (cooling_storage b)))))"
    by (auto simp: known_or_zero_Some clamp_energy_def)
next
  assume "update_heating_storage M b a = Inr b'"
  from update_heating_storage_charge [OF this] obtain sd m where
    h: "attr_at (energy_simulation b) ''heating_demand'' (time_step b) = Inr sd"
       "device_max_output b (heating_device b) = Inr m"
       "heating_storage b' = tank_charge M (heating_storage b)
          (clamp_energy (known_or_zero (Some sd)) m (py_mul a (capacity (heating_storage b))))"
    by blast
  show "\<exists>sd d m.
         attr_at (energy_simulation b) ''heating_demand'' (time_step b) = Inr sd \<and>
         d = (if sd = NaN then Num 0 else sd) \<and>
         (case heating_device b of
            HeatPump hp \<Rightarrow>
              \<exists>temp. attr_at (weather b) ''outdoor_dry_bulb_temperature'' (time_step b) = Inr temp \<and>
                m = hp_get_max_output_power hp temp True None
          | ElectricHeater eh \<Rightarrow> m = eh_get_max_output_power eh) \<and>
         heating_storage b' = tank_charge M (heating_storage b)
           (py_max (py_neg d) (py_min (py_sub m d) (py_mul a (capacity (heating_storage b)))))"
    using h(1,3) device_max_output_cases [OF h(2)]
    by (intro exI [of _ sd] exI [of _ m] exI [of _ "if sd = NaN then Num 0 else sd"])
       (simp add: known_or_zero_Some clamp_energy_def)
next
  assume "update_dhw_storage M b a = Inr b'"
  from update_dhw_storage_charge [OF this] obtain sd m where
    h: "attr_at (energy_simulation b) ''dhw_demand'' (time_step b) = Inr sd"
       "device_max_output b (dhw_device b) = Inr m"
       "dhw_storage b' = tank_charge M (dhw_storage b)
          (clamp_energy (known_or_zero (Some sd)) m (py_mul a (capacity (dhw_storage b))))"
    by blast
  show "\<exists>sd d m.
         attr_at (energy_simulation b) ''dhw_demand'' (time_step b) = Inr sd \<and>
         d = (if sd = NaN then Num 0 else sd) \<and>
         (case dhw_device b of
            HeatPump hp \<Rightarrow>
              \<exists>temp. attr_at (weather b) ''outdoor_dry_bulb_temperature'' (time_step b) = Inr temp \<and>
                m = hp_get_max_output_power hp temp True None
          | ElectricHeater eh \<Rightarrow> m = eh_get_max_output_power eh) \<and>
         dhw_storage b' = tank_charge M (dhw_storage b)
           (py_max (py_neg d) (py_min (py_sub m d) (py_mul a (capacity (dhw_storage b)))))"
    using h(1,3) device_max_output_cases [OF h(2)]
    by (intro exI [of _ sd] exI [of _ m] exI [of _ "if sd = NaN then Num 0 else sd"])
       (simp add: known_or_zero_Some clamp_energy_def)
next
  show "known_or_zero None = Num 0"
    by (simp add: known_or_zero_def)
qed

lemma example_cooling_charge:
  "update_cooling_storage example_model example_building (Num 1) =
     Inr (example_building\<lparr>cooling_storage :=
       \<lparr>capacity = Num 10, soc = [Num 0, Num 5], energy_balance = [Num 0, Num 5]\<rparr>\<rparr>)"
  by (simp add: storage_defs example_defs eval_defs)

lemma example_heating_charge:
  "update_heating_storage example_model example_building (Num 1) =
     Inr (example_building\<lparr>heating_storage :=
       \<lparr>capacity = Num 4, soc = [Num 0, Num (- (18 / 5))], energy_balance = [Num 0, Num (- (18 / 5))]\<rparr>\<rparr>)"
  by (simp add: storage_defs example_defs eval_defs)

lemma example_dhw_charge:
  "update_dhw_storage example_model example_building (Num 1) =
     Inr (example_building\<lparr>dhw_storage :=
       \<lparr>capacity = Num 3, soc = [Num 0, Num 1], energy_balance = [Num 0, Num 1]\<rparr>\<rparr>)"
  by (simp add: storage_defs example_defs eval_defs)


text \<open>
  The scenario of the specification: action 1 on a cooling storage of capacity 10, zero
  cooling demand and a device that delivers at most 5. The storage is asked for 5, not
  for 10.
\<close>

theorem storage_charge_request_witness:
  "capacity (cooling_storage example_building) = Num 10 \<and>
   attr_at (energy_simulation example_building) ''cooling_demand'' 0 = Inr (Num 0) \<and>
   hp_get_max_output_power (cooling_device example_building) (Num 30) False None = Num 5 \<and>
   (\<exists>b'. update_cooling_storage example_model example_building (Num 1) = Inr b' \<and>
      cooling_storage b' = tank_charge example_model (cooling_storage example_building) (Num 5)) \<and>
   (\<exists>b'. update_heating_storage example_model example_building (Num 1) = Inr b' \<and>
      heating_storage b' = tank_charge example_model (heating_storage example_building) (Num (- (18 / 5)))) \<and>
   (\<exists>b'. update_dhw_storage example_model example_building (Num 1) = Inr b' \<and>
      dhw_storage b' = tank_charge example_model (dhw_storage example_building) (Num 1))"
proof -
  have facts: "capacity (cooling_storage example_building) = Num 10"
    "attr_at (energy_simulation example_building) ''cooling_demand'' 0 = Inr (Num 0)"
    "attr_at (energy_simulation example_building) ''heating_demand'' 0 = Inr (Num 9)"
    "attr_at (energy_simulation example_building) ''dhw_demand'' 0 = Inr (Num 2)"
    "attr_at (weather example_building) ''outdoor_dry_bulb_temperature'' 0 = Inr (Num 30)"
    "hp_get_max_output_power (cooling_device example_building) (Num 30) False None = Num 5"
    "time_step example_building = 0"
    by (simp_all add: example_defs eval_defs)
  obtain c where c: "update_cooling_storage example_model example_building (Num 1) = Inr c"
    using example_cooling_charge by blast
  obtain h where h: "update_heating_storage example_model example_building (Num 1) = Inr h"
    using example_heating_charge by blast
  obtain d where d: "update_dhw_storage example_model example_building (Num 1) = Inr d"
    using example_dhw_charge by blast
  have "cooling_storage c = tank_charge example_model (cooling_storage example_building) (Num 5)"
    using storage_charge_request [of example_model example_building "Num 1" c] c facts
    by (auto simp: example_defs eval_defs)
  moreover have "heating_storage h =
      tank_charge example_model (heating_storage example_building) (Num (- (18 / 5)))"
    using storage_charge_request [of example_model example_building "Num 1" h] h facts
    by (auto simp: example_defs eval_defs)
  moreover have "dhw_storage d = tank_charge example_model (dhw_storage example_building) (Num 1)"
    using storage_charge_request [of example_model example_building "Num 1" d] d facts
    by (auto simp: example_defs eval_defs)
  ultimately show ?thesis
    using c h d facts by blast
qed

section \<open>Properties of the action space and of the observations\<close>

lemmas action_space_defs = estimate_action_space_def active_actions_def action_limits_def
  private_capacity_def vars_item_def first_word_def np_max_def np_maximum_def ratio_bounds_def

lemmas observation_defs = observations_def observations_data_def select_observations_def
  active_observations_def dict_get_def soc_fraction_def heating_device_cop_def

lemma zero_capacity_limits:
  assumes "private_capacity b key = Inr (Num 0)"
    and "key \<notin> {''electrical_storage'', ''cooling_device'', ''heating_device''}"
    and "and_then (vars_item (energy_simulation b) (first_word key @ ''_demand'')) np_max = Inr (Num m)"
  shows "action_limits b key =
           Inr (if 0 < m then (Num (- 1), Num 1) else if m = 0 then (NaN, NaN) else (PInf, NInf))"
proof -
  from assms(3) obtain d where d: "vars_item (energy_simulation b) (first_word key @ ''_demand'') = Inr d"
    "np_max d = Inr (Num m)"
    by (auto simp: and_then_Inr)
  have "action_limits b key =
      Inr (py_max (py_neg (np_div (Num m) (Num 0))) (Num (- 1)), py_min (np_div (Num m) (Num 0)) (Num 1))"
    using assms(1,2) d by (simp add: action_limits_def and_then_def ratio_bounds_def Let_def)
  then show ?thesis
    by (simp add: inf_times_def py_max_def py_min_def py_gt_def)
qed

lemma selected_keys:
  "map fst (concat (map (\<lambda>k. case f k of None \<Rightarrow> [] | Some v \<Rightarrow> [(k, v)]) ks)) = filter (\<lambda>k. f k \<noteq> None) ks"
  by (induction ks) (auto split: option.splits)

lemma selected_values:
  "(k, v) \<in> set (concat (map (\<lambda>k. case f k of None \<Rightarrow> [] | Some v \<Rightarrow> [(k, v)]) ks)) \<longleftrightarrow> k \<in> set ks \<and> f k = Some v"
  by (induction ks) (auto split: option.splits)

lemma selected_lookup:
  "map_of (concat (map (\<lambda>k. case f k of None \<Rightarrow> [] | Some v \<Rightarrow> [(k, v)]) ks)) k = (if k \<in> set ks then f k else None)"
  by (induction ks) (auto split: option.splits)

lemma select_observations_unknown:
  assumes "\<exists>k \<in> set active. dict_get entries k = None"
  shows "select_observations entries active =
           Inl (AssertionError (filter (\<lambda>k. dict_get entries k = None) (remdups active)))"
proof -
  let ?obs = "concat (map (\<lambda>k. case dict_get entries k of None \<Rightarrow> [] | Some v \<Rightarrow> [(k, v)]) active)"
  have k: "map fst ?obs = filter (\<lambda>k. dict_get entries k \<noteq> None) active"
    by (rule selected_keys)
  have u: "filter (\<lambda>k. k \<notin> set (map fst ?obs)) (remdups active) =
        filter (\<lambda>k. dict_get entries k = None) (remdups active)"
    unfolding k by (rule filter_cong) auto
  from assms have "filter (\<lambda>k. dict_get entries k = None) (remdups active) \<noteq> []"
    by (auto simp: filter_empty_conv)
  then show ?thesis
    unfolding select_observations_def Let_def u by simp
qed

lemma select_observations_known:
  assumes "\<forall>k \<in> set active. dict_get entries k \<noteq> None"
  shows "\<exists>obs. select_observations entries active = Inr obs \<and> map fst obs = active \<and>
           (\<forall>(k, v) \<in> set obs. dict_get entries k = Some v)"
proof -
  let ?obs = "concat (map (\<lambda>k. case dict_get entries k of None \<Rightarrow> [] | Some v \<Rightarrow> [(k, v)]) active)"
  from assms have keys: "map fst ?obs = active"
    by (simp add: selected_keys filter_id_conv)
  then have "filter (\<lambda>k. k \<notin> set (map fst ?obs)) (remdups active) = []"
    by (simp add: filter_empty_conv)
  then have "select_observations entries active = Inr ?obs"
    by (simp add: select_observations_def Let_def)
  moreover have "\<forall>(k, v) \<in> set ?obs. dict_get entries k = Some v"
    using selected_values [of _ _ "dict_get entries" active] by blast
  ultimately show ?thesis using keys by blast
qed

text \<open>
  Claim C7. Once the dictionary \<^verbatim>\<open>data\<close> is assembled: if some active observation name
  has no entry in it, reading the observations fails with an assertion error that
  carries exactly the active names without an entry; if every active name has an entry,
  the result lists exactly the active observations, in their order, each with its value
  in \<^verbatim>\<open>data\<close>.
\<close>

theorem observations_resolution:
  assumes "observations_data M b = Inr entries"
  shows "((\<exists>k \<in> set (active_observations b). dict_get entries k = None) \<longrightarrow>
            (\<exists>names. observations M b = Inl (AssertionError names) \<and>
               set names = set (filter (\<lambda>k. dict_get entries k = None) (active_observations b)))) \<and>
         ((\<forall>k \<in> set (active_observations b). dict_get entries k \<noteq> None) \<longrightarrow>
            (\<exists>obs. observations M b = Inr obs \<and> map fst obs = active_observations b \<and>
               (\<forall>(k, v) \<in> set obs. dict_get entries k = Some v)))"
proof (intro conjI impI)
  assume "\<exists>k \<in> set (active_observations b). dict_get entries k = None"
  from select_observations_unknown [OF this] assms
  have "observations M b =
      Inl (AssertionError (filter (\<lambda>k. dict_get entries k = None) (remdups (active_observations b))))"
    by (simp add: observations_def and_then_def)
  then show "\<exists>names. observations M b = Inl (AssertionError names) \<and>
               set names = set (filter (\<lambda>k. dict_get entries k = None) (active_observations b))"
    by auto
next
  assume "\<forall>k \<in> set (active_observations b). dict_get entries k \<noteq> None"
  from select_observations_known [OF this] assms
  show "\<exists>obs. observations M b = Inr obs \<and> map fst obs = active_observations b \<and>
               (\<forall>(k, v) \<in> set obs. dict_get entries k = Some v)"
    by (simp add: observations_def and_then_def)
qed

lemma heating_device_cop_value:
  assumes "heating_device_cop b = Inr hc"
    and "attr_at (weather b) ''outdoor_dry_bulb_temperature'' (time_step b) = Inr temp"
  shows "hc = (case heating_device b of
                 HeatPump hp \<Rightarrow> hp_get_cop (cooling_device b) temp True
               | ElectricHeater eh \<Rightarrow> eh_efficiency eh)"
  using assms by (cases "heating_device b") (auto simp: heating_device_cop_def and_then_def)

lemma observations_data_heating_cop:
  assumes "observations_data M b = Inr entries"
  shows "\<exists>temp hc. attr_at (weather b) ''outdoor_dry_bulb_temperature'' (time_step b) = Inr temp \<and>
           heating_device_cop b = Inr hc \<and> dict_get entries ''heating_device_cop'' = Some hc"
  using assms unfolding observations_data_def Let_def and_then_Inr
  by (elim exE conjE) (auto simp: dict_get_def)

text \<open>
  Claim C10. Whenever the observations are read with \<open>heating_device_cop\<close> active, its
  value is the cooling device's \<^verbatim>\<open>get_cop\<close> at the current outdoor temperature in
  heating mode when the heating device is a heat pump (the heating device's own
  \<^verbatim>\<open>get_cop\<close> is not called), and the heating device's efficiency otherwise.
\<close>

theorem heating_cop_observation:
  assumes "observations M b = Inr obs"
    and "''heating_device_cop'' \<in> set (active_observations b)"
  shows "\<exists>temp. attr_at (weather b) ''outdoor_dry_bulb_temperature'' (time_step b) = Inr temp \<and>
           map_of obs ''heating_device_cop'' =
             Some (case heating_device b of
                     HeatPump hp \<Rightarrow> hp_get_cop (cooling_device b) temp True
                   | ElectricHeater eh \<Rightarrow> eh_efficiency eh)"
proof -
  from assms(1) obtain entries where e: "observations_data M b = Inr entries"
    and s: "select_observations entries (active_observations b) = Inr obs"
    by (auto simp: observations_def and_then_Inr)
  from observations_data_heating_cop [OF e] obtain temp hc where
    t: "attr_at (weather b) ''outdoor_dry_bulb_temperature'' (time_step b) = Inr temp"
    and hc: "heating_device_cop b = Inr hc" "dict_get entries ''heating_device_cop'' = Some hc"
    by blast
  from s have "obs = concat (map (\<lambda>k. case dict_get entries k of None \<Rightarrow> [] | Some v \<Rightarrow> [(k, v)])
      (active_observations b))"
    by (simp add: select_observations_def Let_def split: if_splits)
  then have "map_of obs ''heating_device_cop'' = Some hc"
    using assms(2) hc(2) by (simp add: selected_lookup)
  with heating_device_cop_value [OF hc(1) t] t show ?thesis by blast
qed


lemma example_observations_data:
  "observations_data example_model example_after_reset = Inr (example_entries (9 / 10))"
  "observations_data example_model example_misconfigured_building = Inr (example_entries (9 / 10))"
  "observations_data example_model example_heat_pump_building = Inr (example_entries 2)"
  by (simp_all add: observation_defs example_defs eval_defs example_entries_def)

theorem observations_resolution_witness:
  "observations_data example_model example_after_reset = Inr (example_entries (9 / 10)) \<and>
   observations_data example_model example_misconfigured_building = Inr (example_entries (9 / 10)) \<and>
   active_observations example_after_reset = [''cooling_demand'', ''heating_device_cop''] \<and>
   active_observations example_misconfigured_building = [''month'', ''cooling_demand'', ''foo''] \<and>
   (\<exists>obs. observations example_model example_after_reset = Inr obs \<and>
      map fst obs = [''cooling_demand'', ''heating_device_cop'']) \<and>
   (\<exists>names. observations example_model example_misconfigured_building = Inl (AssertionError names) \<and>
      set names = {''month'', ''foo''})"
proof -
  have a: "active_observations example_after_reset = [''cooling_demand'', ''heating_device_cop'']"
    "active_observations example_misconfigured_building = [''month'', ''cooling_demand'', ''foo'']"
    by (simp_all add: active_observations_def example_defs)
  have d: "dict_get (example_entries (9 / 10)) ''cooling_demand'' = Some (Num 0)"
    "dict_get (example_entries (9 / 10)) ''heating_device_cop'' = Some (Num (9 / 10))"
    "dict_get (example_entries (9 / 10)) ''month'' = None"
    "dict_get (example_entries (9 / 10)) ''foo'' = None"
    by (simp_all add: dict_get_def example_entries_def)
  have "\<exists>obs. observations example_model example_after_reset = Inr obs \<and>
      map fst obs = [''cooling_demand'', ''heating_device_cop'']"
    using observations_resolution [OF example_observations_data(1)] a d by auto
  moreover have "\<exists>names. observations example_model example_misconfigured_building =
      Inl (AssertionError names) \<and> set names = {''month'', ''foo''}"
  proof -
    have "\<exists>k \<in> set (active_observations example_misconfigured_building).
        dict_get (example_entries (9 / 10)) k = None"
      using a d by simp
    with observations_resolution [OF example_observations_data(2)]
    obtain names where "observations example_model example_misconfigured_building =
        Inl (AssertionError names)"
      and "set names = set (filter (\<lambda>k. dict_get (example_entries (9 / 10)) k = None)
        (active_observations example_misconfigured_building))"
      by blast
    then show ?thesis
      using a d by auto
  qed
  ultimately show ?thesis
    using a example_observations_data by blast
qed

lemma example_observations:
  "observations example_model example_after_reset =
     Inr [(''cooling_demand'', Num 0), (''heating_device_cop'', Num (9 / 10))]"
  "observations example_model example_heat_pump_building =
     Inr [(''cooling_demand'', Num 0), (''heating_device_cop'', Num 2)]"
  unfolding observations_def example_observations_data
  by (simp_all add: and_then_def select_observations_def active_observations_def dict_get_def
      example_entries_def example_defs)

text \<open>
  With a heat pump for heating whose own coefficient of performance is 7, the
  observation is the cooling device's 2; with the resistive heater it is the heater's
  efficiency 9/10.
\<close>

theorem heating_cop_observation_witness:
  "heating_device example_heat_pump_building = HeatPump example_heating_heat_pump \<and>
   hp_get_cop example_heating_heat_pump (Num 30) True = Num 7 \<and>
   hp_get_cop (cooling_device example_heat_pump_building) (Num 30) True = Num 2 \<and>
   (\<exists>obs. observations example_model example_heat_pump_building = Inr obs \<and>
      map_of obs ''heating_device_cop'' = Some (Num 2)) \<and>
   (\<exists>obs. observations example_model example_after_reset = Inr obs \<and>
      map_of obs ''heating_device_cop'' = Some (Num (9 / 10)))"
proof -
  have facts: "heating_device example_heat_pump_building = HeatPump example_heating_heat_pump"
    "hp_get_cop example_heating_heat_pump (Num 30) True = Num 7"
    "hp_get_cop (cooling_device example_heat_pump_building) (Num 30) True = Num 2"
    "heating_device example_after_reset = ElectricHeater (example_heater (9 / 10))"
    "eh_efficiency (example_heater (9 / 10)) = Num (9 / 10)"
    "attr_at (weather example_heat_pump_building) ''outdoor_dry_bulb_temperature''
       (time_step example_heat_pump_building) = Inr (Num 30)"
    "''heating_device_cop'' \<in> set (active_observations example_heat_pump_building)"
    "''heating_device_cop'' \<in> set (active_observations example_after_reset)"
    by (simp_all add: example_defs eval_defs active_observations_def)
  obtain p where p: "observations example_model example_heat_pump_building = Inr p"
    using example_observations(2) by blast
  obtain r where r: "observations example_model example_after_reset = Inr r"
    using example_observations(1) by blast
  have "map_of p ''heating_device_cop'' = Some (Num 2)"
    using heating_cop_observation [OF p facts(7)] facts(1,3,6) by auto
  moreover have "map_of r ''heating_device_cop'' = Some (Num (9 / 10))"
    using heating_cop_observation [OF r facts(8)] facts(4,5) by auto
  ultimately show ?thesis
    using p r facts(1-3) by blast
qed

text \<open>
  Claim C6. A cooling storage of capacity 0 in a building whose cooling demand is 0
  throughout: the quotient of line 808 is the numpy value of \<open>0 / 0\<close>, no exception is
  raised and both limits of the storage's action are NaN, not -1 and 1.
\<close>

theorem zero_capacity_zero_demand_limits:
  "capacity (cooling_storage example_bare_building) = Num 0 \<and>
   active_actions example_bare_building = [''cooling_storage''] \<and>
   and_then (vars_item (energy_simulation example_bare_building) ''cooling_demand'') np_max = Inr (Num 0) \<and>
   estimate_action_space example_bare_building = Inr ([NaN], [NaN])"
  by (simp add: action_space_defs example_defs eval_defs)

section \<open>Properties of the temperature-driven building\<close>

lemma np_roll_length: "length (np_roll xs s) = length xs"
  by (simp add: np_roll_def Let_def)

lemma np_roll_nth_nat:
  assumes "i < length xs" and "k < length xs"
  shows "(drop (length xs - k) xs @ take (length xs - k) xs) ! i =
           xs ! (if i < k then length xs - k + i else i - k)"
  using assms by (auto simp: nth_append)

lemma np_roll_nth:
  assumes "i < length xs" and "0 \<le> s" and "s < int (length xs)"
  shows "np_roll xs s ! i = xs ! (if i < nat s then length xs - nat s + i else i - nat s)"
proof -
  from assms have "xs \<noteq> []" by auto
  moreover from assms have "nat (s mod int (length xs)) = nat s" by simp
  ultimately show ?thesis
    using np_roll_nth_nat [of i xs "nat s"] assms by (simp add: np_roll_def Let_def)
qed

lemma lookback_window_nth:
  assumes "0 < L" and "L \<le> length xs" and "i < L"
    and "s = L \<and> t \<le> length xs \<or> s + 1 = L \<and> t < length xs"
  shows "lookback_window xs L (int s) t ! i = xs ! ((t + i + length xs - s) mod length xs)"
proof -
  let ?n = "length xs"
  let ?y = "xs @ tail_slice xs L"
  have ly: "length ?y = ?n + L"
    using assms by (simp add: tail_slice_def)
  have ts: "tail_slice xs L = drop (?n - L) xs"
    using assms by (simp add: tail_slice_def)
  have ti: "t + i < ?n + L"
    using assms by auto
  have "lookback_window xs L (int s) t ! i = np_roll ?y (int s) ! (t + i)"
    using assms ti ly by (simp add: lookback_window_def np_roll_length)
  also have "\<dots> = ?y ! (if t + i < s then ?n + L - s + (t + i) else t + i - s)"
  proof -
    have "int s < int (length ?y)" using assms ly by auto
    then have "np_roll ?y (int s) ! (t + i) =
        ?y ! (if t + i < nat (int s) then length ?y - nat (int s) + (t + i) else t + i - nat (int s))"
      using ti ly by (intro np_roll_nth) simp_all
    then show ?thesis by (simp only: nat_int ly)
  qed
  also have "\<dots> = xs ! ((t + i + ?n - s) mod ?n)"
  proof (cases "t + i < s")
    case True
    then have "?n + L - s + (t + i) = ?n + (t + i + L - s)"
      using assms by auto
    moreover have "t + i + L - s < L" using True assms by auto
    moreover have "(t + i + ?n - s) mod ?n = t + i + ?n - s"
      using True assms by auto
    ultimately show ?thesis
      using True assms by (auto simp: nth_append ts intro!: arg_cong [where f = "nth xs"])
  next
    case False
    then have "t + i - s < ?n" using assms by auto
    moreover from False have "(t + i + ?n - s) mod ?n = t + i - s"
      using assms calculation
      by (metis Nat.add_diff_assoc2 add.commute le_add_diff_inverse2 linorder_not_less mod_add_self1 mod_less nat_le_linear)
    ultimately show ?thesis
      using False by (simp add: nth_append)
  qed
  finally show ?thesis .
qed


lemma map_of_set_entry:
  "map_of (set_entry f c v) c' = (if c' = c then map_option (\<lambda>x. v) (map_of f c) else map_of f c')"
  by (induction f) (auto simp: set_entry_def)

lemma set_column_Inr: "set_column rows f c v = Inr f' \<longleftrightarrow> length v = rows \<and> f' = set_entry f c v"
  by (auto simp: set_column_def)

lemma periodic_columns_Cons:
  "periodic_columns pn data L t f (c # cs) = Inr f' \<longleftrightarrow>
     (\<exists>xs x_max. dict_get data c = Some xs \<and>
        np_max (lookback_window xs L (int L) t) = Inr x_max \<and>
        length (fst (pn x_max (lookback_window xs L (int L) t))) = L \<and>
        length (snd (pn x_max (lookback_window xs L (int L) t))) = L \<and>
        periodic_columns pn data L t
          (set_entry (set_entry f (c @ ''_sin'') (fst (pn x_max (lookback_window xs L (int L) t))))
             (c @ ''_cos'') (snd (pn x_max (lookback_window xs L (int L) t)))) cs = Inr f')"
  by (auto simp: Let_def and_then_Inr set_column_Inr split: option.splits)

lemma plain_columns_Cons:
  "plain_columns data L t f (c # cs) = Inr f' \<longleftrightarrow>
     (\<exists>xs. dict_get data c = Some xs \<and> length (lookback_window xs L (int L) t) = L \<and>
        plain_columns data L t (set_entry f c (lookback_window xs L (int L) t)) cs = Inr f')"
  by (auto simp: and_then_Inr set_column_Inr split: option.splits)

lemma periodic_columns_Nil: "periodic_columns pn data L t f [] = Inr f' \<longleftrightarrow> f' = f"
  by auto

lemma plain_columns_Nil: "plain_columns data L t f [] = Inr f' \<longleftrightarrow> f' = f"
  by auto

lemma model_input_frame:
  assumes "lstm_model_input pn b = Inr f"
  shows "\<exists>cd it dsi odt oc hr dt mo hx dx mx.
      getattr (energy_simulation b) ''cooling_demand'' = Inr cd \<and>
      getattr (energy_simulation b) ''indoor_dry_bulb_temperature'' = Inr it \<and>
      dict_get (energy_simulation b @ weather b) ''direct_solar_irradiance'' = Some dsi \<and>
      dict_get (energy_simulation b @ weather b) ''outdoor_dry_bulb_temperature'' = Some odt \<and>
      dict_get (energy_simulation b @ weather b) ''occupant_count'' = Some oc \<and>
      dict_get (energy_simulation b @ weather b) ''hour'' = Some hr \<and>
      dict_get (energy_simulation b @ weather b) ''day_type'' = Some dt \<and>
      dict_get (energy_simulation b @ weather b) ''month'' = Some mo \<and>
      np_max (lookback_window hr (dynamics_lookback b) (int (dynamics_lookback b)) (time_step b)) = Inr hx \<and>
      np_max (lookback_window dt (dynamics_lookback b) (int (dynamics_lookback b)) (time_step b)) = Inr dx \<and>
      np_max (lookback_window mo (dynamics_lookback b) (int (dynamics_lookback b)) (time_step b)) = Inr mx \<and>
      f = [(''direct_solar_irradiance'', lookback_window dsi (dynamics_lookback b) (int (dynamics_lookback b)) (time_step b)),
           (''outdoor_dry_bulb_temperature'', lookback_window odt (dynamics_lookback b) (int (dynamics_lookback b)) (time_step b)),
           (''occupant_count'', lookback_window oc (dynamics_lookback b) (int (dynamics_lookback b)) (time_step b)),
           (''q_hvac'', lookback_window cd (dynamics_lookback b) (int (dynamics_lookback b) - 1) (time_step b)),
           (''hour_sin'', fst (pn hx (lookback_window hr (dynamics_lookback b) (int (dynamics_lookback b)) (time_step b)))),
           (''hour_cos'', snd (pn hx (lookback_window hr (dynamics_lookback b) (int (dynamics_lookback b)) (time_step b)))),
           (''day_type_sin'', fst (pn dx (lookback_window dt (dynamics_lookback b) (int (dynamics_lookback b)) (time_step b)))),
           (''day_type_cos'', snd (pn dx (lookback_window dt (dynamics_lookback b) (int (dynamics_lookback b)) (time_step b)))),
           (''month_sin'', fst (pn mx (lookback_window mo (dynamics_lookback b) (int (dynamics_lookback b)) (time_step b)))),
           (''month_cos'', snd (pn mx (lookback_window mo (dynamics_lookback b) (int (dynamics_lookback b)) (time_step b)))),
           (''indoor_dry_bulb_temperature'', lookback_window it (dynamics_lookback b) (int (dynamics_lookback b)) (time_step b))]"
proof -
  from assms have "dynamics_input_size b = length model_input_columns"
    by (auto simp: lstm_model_input_def Let_def split: if_splits)
  with assms show ?thesis
    unfolding lstm_model_input_def Let_def
    by (simp add: and_then_Inr set_column_Inr periodic_columns_Cons plain_columns_Cons periodic_columns_Nil plain_columns_Nil
          del: periodic_columns.simps plain_columns.simps)
       (auto simp: set_entry_def model_input_columns_def)
qed


lemma getattr_mem: "getattr obj c = Inr xs \<Longrightarrow> xs \<in> snd ` set obj"
  by (auto simp: getattr_def split: option.splits dest!: map_of_SomeD intro: rev_image_eqI)

lemma dict_get_mem: "dict_get entries c = Some xs \<Longrightarrow> xs \<in> snd ` set entries"
  by (auto simp: dict_get_def dest!: map_of_SomeD intro: rev_image_eqI)

text \<open>
  Claim C8, as the code has it. Let every series of the energy simulation and of the
  weather have \<open>n\<close> samples, with the look-back \<open>L\<close> between 1 and \<open>n\<close> and the current
  step \<open>t\<close> below \<open>n\<close>. In row \<open>i\<close> of the window, the indoor temperature, the direct
  solar irradiance, the outdoor temperature, the occupant count and the hour, day type
  and month values that are encoded all hold the sample of step \<open>t - L + i\<close> (counted
  circularly), and \<open>q_hvac\<close> holds the cooling demand of step \<open>t - L + i + 1\<close>. The
  temperature column is one step older than \<open>q_hvac\<close> only.
\<close>

theorem lookback_window_alignment:
  assumes "lstm_model_input pn b = Inr f"
    and "0 < dynamics_lookback b" and "dynamics_lookback b \<le> n" and "time_step b < n"
    and "i < dynamics_lookback b"
    and "\<forall>xs \<in> snd ` set (energy_simulation b @ weather b). length xs = n"
  shows "\<exists>cd it dsi odt oc hr dt mo hv dv mv hx dx mx.
      getattr (energy_simulation b) ''cooling_demand'' = Inr cd \<and>
      getattr (energy_simulation b) ''indoor_dry_bulb_temperature'' = Inr it \<and>
      dict_get (energy_simulation b @ weather b) ''direct_solar_irradiance'' = Some dsi \<and>
      dict_get (energy_simulation b @ weather b) ''outdoor_dry_bulb_temperature'' = Some odt \<and>
      dict_get (energy_simulation b @ weather b) ''occupant_count'' = Some oc \<and>
      dict_get (energy_simulation b @ weather b) ''hour'' = Some hr \<and>
      dict_get (energy_simulation b @ weather b) ''day_type'' = Some dt \<and>
      dict_get (energy_simulation b @ weather b) ''month'' = Some mo \<and>
      map (\<lambda>c. map_option (\<lambda>col. col ! i) (map_of f c))
        [''indoor_dry_bulb_temperature'', ''direct_solar_irradiance'',
         ''outdoor_dry_bulb_temperature'', ''occupant_count''] =
      map (\<lambda>xs. Some (xs ! ((time_step b + i + n - dynamics_lookback b) mod n))) [it, dsi, odt, oc] \<and>
      map_option (\<lambda>col. col ! i) (map_of f ''q_hvac'') =
        Some (cd ! ((time_step b + i + 1 + n - dynamics_lookback b) mod n)) \<and>
      map (\<lambda>v. v ! i) [hv, dv, mv] =
        map (\<lambda>xs. xs ! ((time_step b + i + n - dynamics_lookback b) mod n)) [hr, dt, mo] \<and>
      np_max hv = Inr hx \<and> np_max dv = Inr dx \<and> np_max mv = Inr mx \<and>
      map (map_of f) [''hour_sin'', ''hour_cos'', ''day_type_sin'', ''day_type_cos'',
                      ''month_sin'', ''month_cos''] =
        [Some (fst (pn hx hv)), Some (snd (pn hx hv)), Some (fst (pn dx dv)), Some (snd (pn dx dv)),
         Some (fst (pn mx mv)), Some (snd (pn mx mv))]"
proof -
  let ?L = "dynamics_lookback b" and ?t = "time_step b"
  let ?data = "energy_simulation b @ weather b"
  from model_input_frame [OF assms(1)] obtain cd it dsi odt oc hr dt mo hx dx mx where
    src: "getattr (energy_simulation b) ''cooling_demand'' = Inr cd"
      "getattr (energy_simulation b) ''indoor_dry_bulb_temperature'' = Inr it"
      "dict_get ?data ''direct_solar_irradiance'' = Some dsi"
      "dict_get ?data ''outdoor_dry_bulb_temperature'' = Some odt"
      "dict_get ?data ''occupant_count'' = Some oc"
      "dict_get ?data ''hour'' = Some hr"
      "dict_get ?data ''day_type'' = Some dt"
      "dict_get ?data ''month'' = Some mo"
    and mx: "np_max (lookback_window hr ?L (int ?L) ?t) = Inr hx"
      "np_max (lookback_window dt ?L (int ?L) ?t) = Inr dx"
      "np_max (lookback_window mo ?L (int ?L) ?t) = Inr mx"
    and f: "f = [(''direct_solar_irradiance'', lookback_window dsi ?L (int ?L) ?t),
           (''outdoor_dry_bulb_temperature'', lookback_window odt ?L (int ?L) ?t),
           (''occupant_count'', lookback_window oc ?L (int ?L) ?t),
           (''q_hvac'', lookback_window cd ?L (int ?L - 1) ?t),
           (''hour_sin'', fst (pn hx (lookback_window hr ?L (int ?L) ?t))),
           (''hour_cos'', snd (pn hx (lookback_window hr ?L (int ?L) ?t))),
           (''day_type_sin'', fst (pn dx (lookback_window dt ?L (int ?L) ?t))),
           (''day_type_cos'', snd (pn dx (lookback_window dt ?L (int ?L) ?t))),
           (''month_sin'', fst (pn mx (lookback_window mo ?L (int ?L) ?t))),
           (''month_cos'', snd (pn mx (lookback_window mo ?L (int ?L) ?t))),
           (''indoor_dry_bulb_temperature'', lookback_window it ?L (int ?L) ?t)]"
    by blast
  have len: "length cd = n" "length it = n" "length dsi = n" "length odt = n" "length oc = n"
    "length hr = n" "length dt = n" "length mo = n"
    using assms(6) src(1,2) [THEN getattr_mem] src(3-8) [THEN dict_get_mem] by auto
  have lag: "lookback_window xs ?L (int ?L) ?t ! i = xs ! ((?t + i + n - ?L) mod n)"
    if "length xs = n" for xs :: series
    using lookback_window_nth [of ?L xs i ?L ?t] that assms(2-5) by simp
  have "int ?L - 1 = int (?L - 1)"
    using assms(2) by simp
  then have cur: "lookback_window cd ?L (int ?L - 1) ?t ! i = cd ! ((?t + i + 1 + n - ?L) mod n)"
    using lookback_window_nth [of ?L cd i "?L - 1" ?t] len(1) assms(2-5) by simp
  show ?thesis
    apply (rule exI [of _ cd], rule exI [of _ it], rule exI [of _ dsi], rule exI [of _ odt])
    apply (rule exI [of _ oc], rule exI [of _ hr], rule exI [of _ dt], rule exI [of _ mo])
    apply (rule exI [of _ "lookback_window hr ?L (int ?L) ?t"])
    apply (rule exI [of _ "lookback_window dt ?L (int ?L) ?t"])
    apply (rule exI [of _ "lookback_window mo ?L (int ?L) ?t"])
    apply (rule exI [of _ hx], rule exI [of _ dx], rule exI [of _ mx])
    apply (simp add: src mx f lag len cur)
    done
qed

lemma example_windows:
  "lookback_window example_steps 2 2 3 = [Num 1, Num 2]"
  "lookback_window example_steps 2 1 3 = [Num 2, Num 3]"
  by (simp_all add: lookback_window_def np_roll_def tail_slice_def example_steps_def Let_def)

lemma example_model_input:
  "lstm_model_input example_pn example_lstm_building =
     Inr [(''direct_solar_irradiance'', [Num 1, Num 2]),
          (''outdoor_dry_bulb_temperature'', [Num 1, Num 2]),
          (''occupant_count'', [Num 1, Num 2]),
          (''q_hvac'', [Num 2, Num 3]),
          (''hour_sin'', [Num 1, Num 2]), (''hour_cos'', [Num 1, Num 0]),
          (''day_type_sin'', [Num 1, Num 2]), (''day_type_cos'', [Num 1, Num 0]),
          (''month_sin'', [Num 1, Num 2]), (''month_cos'', [Num 1, Num 0]),
          (''indoor_dry_bulb_temperature'', [Num 1, Num 2])]"
  by (simp add: lstm_model_input_def model_input_columns_def set_column_def set_entry_def
      example_windows dict_get_def np_max_def np_maximum_def
      example_lstm_building_def example_pn_def building.defs
      lstm_dynamics_building.defs example_building_def eval_defs)


theorem lookback_window_alignment_witness:
  "0 < dynamics_lookback example_lstm_building \<and>
   dynamics_lookback example_lstm_building \<le> 4 \<and>
   time_step example_lstm_building < 4 \<and>
   1 < dynamics_lookback example_lstm_building \<and>
   list_all (\<lambda>xs. length xs = 4)
     (map snd (energy_simulation example_lstm_building @ weather example_lstm_building)) \<and>
   (\<exists>f cd it.
      lstm_model_input example_pn example_lstm_building = Inr f \<and>
      getattr (energy_simulation example_lstm_building) ''cooling_demand'' = Inr cd \<and>
      getattr (energy_simulation example_lstm_building) ''indoor_dry_bulb_temperature'' = Inr it \<and>
      map_option (\<lambda>col. col ! 1) (map_of f ''q_hvac'') = Some (cd ! 3) \<and>
      map_option (\<lambda>col. col ! 1) (map_of f ''indoor_dry_bulb_temperature'') = Some (it ! 2))"
proof -
  have h: "0 < dynamics_lookback example_lstm_building"
    "dynamics_lookback example_lstm_building \<le> 4"
    "time_step example_lstm_building < 4"
    "1 < dynamics_lookback example_lstm_building"
    by (simp_all add: example_lstm_building_def building.defs lstm_dynamics_building.defs)
  have a: "list_all (\<lambda>xs. length xs = 4)
     (map snd (energy_simulation example_lstm_building @ weather example_lstm_building))"
    by (simp add: example_lstm_building_def building.defs lstm_dynamics_building.defs
        example_steps_def)
  then have b: "\<forall>xs \<in> snd ` set (energy_simulation example_lstm_building @ weather example_lstm_building).
      length xs = 4"
    by (auto simp: list_all_iff)
  have t: "(time_step example_lstm_building + 1 + 4 - dynamics_lookback example_lstm_building) mod 4 = 2"
    "(time_step example_lstm_building + 1 + 1 + 4 - dynamics_lookback example_lstm_building) mod 4 = 3"
    by (simp_all add: example_lstm_building_def building.defs lstm_dynamics_building.defs)
  let ?f = "[(''direct_solar_irradiance'', [Num 1, Num 2]),
          (''outdoor_dry_bulb_temperature'', [Num 1, Num 2]),
          (''occupant_count'', [Num 1, Num 2]),
          (''q_hvac'', [Num 2, Num 3]),
          (''hour_sin'', [Num 1, Num 2]), (''hour_cos'', [Num 1, Num 0]),
          (''day_type_sin'', [Num 1, Num 2]), (''day_type_cos'', [Num 1, Num 0]),
          (''month_sin'', [Num 1, Num 2]), (''month_cos'', [Num 1, Num 0]),
          (''indoor_dry_bulb_temperature'', [Num 1, Num 2])]"
  from lookback_window_alignment [OF example_model_input h(1-4) b]
  obtain cd it dsi odt oc where
    src: "getattr (energy_simulation example_lstm_building) ''cooling_demand'' = Inr cd"
      "getattr (energy_simulation example_lstm_building) ''indoor_dry_bulb_temperature'' = Inr it"
    and lagged: "map (\<lambda>c. map_option (\<lambda>col. col ! 1) (map_of ?f c))
        [''indoor_dry_bulb_temperature'', ''direct_solar_irradiance'',
         ''outdoor_dry_bulb_temperature'', ''occupant_count''] =
      map (\<lambda>xs. Some (xs ! 2)) [it, dsi, odt, oc]"
    and current: "map_option (\<lambda>col. col ! 1) (map_of ?f ''q_hvac'') = Some (cd ! 3)"
    unfolding t by blast
  from lagged have "map_option (\<lambda>col. col ! 1) (map_of ?f ''indoor_dry_bulb_temperature'') =
      Some (it ! 2)"
    by simp
  with src current have "\<exists>cd it.
      getattr (energy_simulation example_lstm_building) ''cooling_demand'' = Inr cd \<and>
      getattr (energy_simulation example_lstm_building) ''indoor_dry_bulb_temperature'' = Inr it \<and>
      map_option (\<lambda>col. col ! 1) (map_of ?f ''q_hvac'') = Some (cd ! 3) \<and>
      map_option (\<lambda>col. col ! 1) (map_of ?f ''indoor_dry_bulb_temperature'') = Some (it ! 2)"
    by blast
  with example_model_input h a show ?thesis by blast
qed

text \<open>
  Claim C8 as stated fails. Every series of the example is the step index 0, 1, 2, 3;
  at step 3 with a look-back of 2 the temperature column samples the steps 1 and 2, and
  so do the irradiance, outdoor temperature, occupant and hour, day type and month
  columns: they are not one step ahead of the temperature. Only \<open>q_hvac\<close> samples the
  steps 2 and 3.
\<close>

theorem lookback_window_counterexample:
  "getattr (energy_simulation example_lstm_building) ''indoor_dry_bulb_temperature'' =
     Inr [Num 0, Num 1, Num 2, Num 3] \<and>
   getattr (weather example_lstm_building) ''outdoor_dry_bulb_temperature'' =
     Inr [Num 0, Num 1, Num 2, Num 3] \<and>
   time_step example_lstm_building = 3 \<and> dynamics_lookback example_lstm_building = 2 \<and>
   lstm_model_input example_pn example_lstm_building =
     Inr [(''direct_solar_irradiance'', [Num 1, Num 2]),
          (''outdoor_dry_bulb_temperature'', [Num 1, Num 2]),
          (''occupant_count'', [Num 1, Num 2]),
          (''q_hvac'', [Num 2, Num 3]),
          (''hour_sin'', [Num 1, Num 2]), (''hour_cos'', [Num 1, Num 0]),
          (''day_type_sin'', [Num 1, Num 2]), (''day_type_cos'', [Num 1, Num 0]),
          (''month_sin'', [Num 1, Num 2]), (''month_cos'', [Num 1, Num 0]),
          (''indoor_dry_bulb_temperature'', [Num 1, Num 2])]"
  using example_model_input
  by (simp add: example_lstm_building_def building.defs lstm_dynamics_building.defs
      example_steps_def getattr_def)

lemma getattr_set_entry:
  "getattr obj c = Inr xs \<Longrightarrow> getattr (set_entry obj c v) c = Inr v"
  by (auto simp: getattr_def map_of_set_entry split: option.splits)

text \<open>
  Claim C9. Whenever \<^verbatim>\<open>update_cooling_device\<close> of the temperature-driven building
  completes with action \<open>a\<close>, the cooling demand at the current step has been
  overwritten: with 0 if the demand schedule flag is at most 0, and otherwise with the
  cooling device's maximum output power at the current outdoor temperature, in cooling
  mode, for the electric power \<open>min(a * nominal_power, nominal_power)\<close>.
\<close>

theorem cooling_device_demand:
  assumes "lstm_update_cooling_device b a = Inr b'"
  shows "\<exists>cd. getattr (energy_simulation b) ''cooling_demand'' = Inr cd \<and>
           time_step b < length cd \<and>
           (cooling_device_demand_schedule b \<le> 0 \<longrightarrow>
              getattr (energy_simulation b') ''cooling_demand'' = Inr (cd[time_step b := Num 0])) \<and>
           (\<not> cooling_device_demand_schedule b \<le> 0 \<longrightarrow>
              (\<exists>temp. attr_at (weather b) ''outdoor_dry_bulb_temperature'' (time_step b) = Inr temp \<and>
                 getattr (energy_simulation b') ''cooling_demand'' =
                   Inr (cd[time_step b :=
                     hp_get_max_output_power (cooling_device b) temp False
                       (Some (py_min (py_mul a (hp_nominal_power (cooling_device b)))
                                (hp_nominal_power (cooling_device b))))])))"
proof -
  from assms obtain demand cd where
    d: "(if 0 < cooling_device_demand_schedule b then
          and_then (attr_at (weather b) ''outdoor_dry_bulb_temperature'' (time_step b)) (\<lambda>temp.
          Inr (hp_get_max_output_power (cooling_device b) temp False
            (Some (py_min (py_mul a (hp_nominal_power (cooling_device b)))
                     (hp_nominal_power (cooling_device b))))))
        else Inr (Num 0)) = Inr demand"
    and cd: "getattr (energy_simulation b) ''cooling_demand'' = Inr cd"
    and t: "time_step b < length cd"
    and b': "b' = b\<lparr>energy_simulation :=
        set_entry (energy_simulation b) ''cooling_demand'' (cd[time_step b := demand])\<rparr>"
    unfolding lstm_update_cooling_device_def Let_def and_then_Inr setitem_def
    by (auto split: if_splits)
  have g: "getattr (energy_simulation b') ''cooling_demand'' = Inr (cd[time_step b := demand])"
    using getattr_set_entry [OF cd] by (simp add: b')
  show ?thesis
  proof (cases "0 < cooling_device_demand_schedule b")
    case True
    with d obtain temp where
      "attr_at (weather b) ''outdoor_dry_bulb_temperature'' (time_step b) = Inr temp"
      "demand = hp_get_max_output_power (cooling_device b) temp False
         (Some (py_min (py_mul a (hp_nominal_power (cooling_device b)))
                  (hp_nominal_power (cooling_device b))))"
      by (auto simp: and_then_Inr)
    with True cd t g show ?thesis by auto
  next
    case False
    with d have "demand = Num 0" by simp
    with False cd t g show ?thesis by auto
  qed
qed

text \<open>
  On the example (nominal power 2, four units of cooling for each unit of electricity)
  the action 1/2 at step 3 gives a demand of 4 when the flag is 1, and of 0 when it is 0.
\<close>

lemma example_cooling_device:
  "map_sum id energy_simulation (lstm_update_cooling_device example_lstm_building (Num (1 / 2))) =
     Inr (set_entry (energy_simulation example_lstm_building) ''cooling_demand''
            [Num 0, Num 1, Num 2, Num 4])"
  "map_sum id energy_simulation
     (lstm_update_cooling_device (example_lstm_building\<lparr>cooling_device_demand_schedule := 0\<rparr>)
        (Num (1 / 2))) =
     Inr (set_entry (energy_simulation example_lstm_building) ''cooling_demand''
            [Num 0, Num 1, Num 2, Num 0])"
  by (simp_all add: lstm_update_cooling_device_def setitem_def
      example_lstm_building_def building.defs lstm_dynamics_building.defs example_steps_def
      example_building_def example_heat_pump_def eval_defs)

theorem cooling_device_demand_witness:
  "(\<exists>b'. lstm_update_cooling_device example_lstm_building (Num (1 / 2)) = Inr b' \<and>
      \<not> cooling_device_demand_schedule example_lstm_building \<le> 0 \<and>
      getattr (energy_simulation b') ''cooling_demand'' = Inr [Num 0, Num 1, Num 2, Num 4]) \<and>
   (\<exists>b'. lstm_update_cooling_device (example_lstm_building\<lparr>cooling_device_demand_schedule := 0\<rparr>)
        (Num (1 / 2)) = Inr b' \<and>
      getattr (energy_simulation b') ''cooling_demand'' = Inr [Num 0, Num 1, Num 2, Num 0])"
proof -
  let ?off = "example_lstm_building\<lparr>cooling_device_demand_schedule := 0\<rparr>"
  have facts:
    "getattr (energy_simulation example_lstm_building) ''cooling_demand'' = Inr [Num 0, Num 1, Num 2, Num 3]"
    "getattr (energy_simulation ?off) ''cooling_demand'' = Inr [Num 0, Num 1, Num 2, Num 3]"
    "attr_at (weather example_lstm_building) ''outdoor_dry_bulb_temperature''
       (time_step example_lstm_building) = Inr (Num 3)"
    "cooling_device_demand_schedule example_lstm_building = 1"
    "cooling_device_demand_schedule ?off = 0"
    "time_step example_lstm_building = 3" "time_step ?off = 3"
    "hp_get_max_output_power (cooling_device example_lstm_building) (Num 3) False
       (Some (py_min (py_mul (Num (1 / 2)) (hp_nominal_power (cooling_device example_lstm_building)))
                (hp_nominal_power (cooling_device example_lstm_building)))) = Num 4"
    by (simp_all add: example_lstm_building_def building.defs lstm_dynamics_building.defs
        example_steps_def example_building_def example_heat_pump_def eval_defs)
  obtain p where p: "lstm_update_cooling_device example_lstm_building (Num (1 / 2)) = Inr p"
    using example_cooling_device(1) by (cases "lstm_update_cooling_device example_lstm_building (Num (1 / 2))") auto
  obtain q where q: "lstm_update_cooling_device ?off (Num (1 / 2)) = Inr q"
    using example_cooling_device(2) by (cases "lstm_update_cooling_device ?off (Num (1 / 2))") auto
  have "getattr (energy_simulation p) ''cooling_demand'' = Inr [Num 0, Num 1, Num 2, Num 4]"
    using cooling_device_demand [OF p] facts by auto
  moreover have "getattr (energy_simulation q) ''cooling_demand'' = Inr [Num 0, Num 1, Num 2, Num 0]"
    using cooling_device_demand [OF q] facts by auto
  ultimately show ?thesis
    using p q facts(4) by auto
qed

end
